theory Spec2Isabelle
  imports
    Complex_Main
    "HOL-Library.Word"
    "HOL-Library.Char_ord"
    "HOL-Library.List_Lexorder"
    "HOL-Library.AList"
begin

unbundle bit_operations_syntax

section \<open>JavaScript values used by the protocol\<close>

text \<open>
  The secure-aggregation core lives in \<^verbatim>\<open>src/client.js\<close> (class \<^verbatim>\<open>Client\<close>),
  \<^verbatim>\<open>src/server.js\<close> (class \<^verbatim>\<open>Server\<close>) and \<^verbatim>\<open>src/helper.js\<close>. The embedding keeps
  the JavaScript data as it is:
  \<^item> a client identifier is a string of ASCII characters, as the UUIDs that
    \<^verbatim>\<open>src/run.js\<close> gives its clients are; \<^verbatim>\<open><\<close> on two strings is the lexicographic
    order on code units, which for such strings is the order of
    \<open>HOL-Library.List_Lexorder\<close> over \<open>Char_ord\<close>;
  \<^item> a \<^verbatim>\<open>Uint8Array\<close> is a list of bytes; a \<open>char\<close> of HOL is one byte, so a \<open>string\<close>
    holds the bytes of an ASCII JavaScript string and \<^verbatim>\<open>TextEncoder\<close>/\<^verbatim>\<open>TextDecoder\<close> are
    the identity;
  \<^item> a plain object used as a dictionary is an association list in the enumeration order
    of \<^verbatim>\<open>for ... in\<close>, with distinct keys; \<^verbatim>\<open>delete\<close> removes the key and an assignment to
    an existing key keeps its place. A loop that creates the keys of a new object in the
    enumeration order of another one puts each new key last; any other new key goes to
    its place in the enumeration order (\<open>objSet\<close>);
  \<^item> objects that two variables can share live in a store and are named by their address;
  \<^item> a thrown exception is the left summand of the result. No caller in the repository
    catches one, so a throw ends the run and the state at the throw is never observed.
\<close>

type_synonym pid = string
type_synonym bytes = string
type_synonym ref = nat

datatype error =
    TooFewClients | KeyCollision | TooFewCiphertexts | TooFewSurvivors
  | MembershipViolation | CiphertextMisdirected | DecryptionFailed
  | ReconstructionFailed | BelowThreshold | TypeError | RangeError | LibraryError

definition bindE :: "error + 'a \<Rightarrow> ('a \<Rightarrow> error + 'b) \<Rightarrow> error + 'b" where
  "bindE m f = (case m of Inl e \<Rightarrow> Inl e | Inr x \<Rightarrow> f x)"

definition orThrow :: "error \<Rightarrow> 'a option \<Rightarrow> error + 'a" where
  "orThrow e v = (case v of None \<Rightarrow> Inl e | Some x \<Rightarrow> Inr x)"

text \<open>What a property read can give: \<^verbatim>\<open>undefined\<close>, a number, or an object.\<close>

datatype 'a jsval = Undefined | Num int | Obj 'a

definition getProp :: "(string \<times> 'a) list \<Rightarrow> string \<Rightarrow> 'a jsval" where
  "getProp obj k = (case map_of obj k of None \<Rightarrow> Undefined | Some v \<Rightarrow> Obj v)"

text \<open>
  \<^verbatim>\<open>a < b\<close> on two values that are not both strings compares \<^verbatim>\<open>ToNumber\<close> of each;
  \<^verbatim>\<open>undefined\<close> and a plain object both convert to \<^verbatim>\<open>NaN\<close>, and every comparison with
  \<^verbatim>\<open>NaN\<close> is false.
\<close>

fun js_lt :: "'a jsval \<Rightarrow> 'a jsval \<Rightarrow> bool" where
  "js_lt (Num a) (Num b) = (a < b)"
| "js_lt _ _ = False"

subsection \<open>Strings\<close>

function natToString :: "nat \<Rightarrow> string" where
  "natToString n =
     (if n < 10 then [''0123456789'' ! n]
      else natToString (n div 10) @ [''0123456789'' ! (n mod 10)])"
  by pat_completeness auto
termination
  by (relation "measure id") auto

definition intToString :: "int \<Rightarrow> string" where
  "intToString i = (if i < 0 then CHR ''-'' # natToString (nat (- i)) else natToString (nat i))"

text \<open>\<^verbatim>\<open>s.split(sep)\<close> for a one-character separator: always at least one piece.\<close>

fun splitOn :: "char \<Rightarrow> string \<Rightarrow> string list" where
  "splitOn s [] = [[]]"
| "splitOn s (c # cs) =
     (if c = s then [] # splitOn s cs
      else (case splitOn s cs of [] \<Rightarrow> [[c]] | w # ws \<Rightarrow> (c # w) # ws))"

definition nthOpt :: "'a list \<Rightarrow> nat \<Rightarrow> 'a option" where
  "nthOpt xs i = (if i < length xs then Some (xs ! i) else None)"

fun joinWith :: "string \<Rightarrow> string list \<Rightarrow> string" where
  "joinWith s [] = []"
| "joinWith s [x] = x"
| "joinWith s (x # y # ys) = x @ s @ joinWith s (y # ys)"

text \<open>A \<^verbatim>\<open>Uint8Array\<close> inside a template string: its bytes in decimal, joined by commas.\<close>

definition uint8ArrayToString :: "bytes \<Rightarrow> string" where
  "uint8ArrayToString bs = joinWith '','' (map (\<lambda>b. natToString (of_char b)) bs)"

text \<open>
  \<^verbatim>\<open>${v}\<close> of a share that may be missing: \<^verbatim>\<open>undefined\<close> prints as the word itself.
\<close>

definition shareToString :: "bytes option \<Rightarrow> string" where
  "shareToString v = (case v of None \<Rightarrow> ''undefined'' | Some bs \<Rightarrow> uint8ArrayToString bs)"

definition digitVal :: "char \<Rightarrow> nat option" where
  "digitVal c = (if CHR ''0'' \<le> c \<and> c \<le> CHR ''9'' then Some (of_char c - 48) else None)"

fun parseDigits :: "nat \<Rightarrow> string \<Rightarrow> nat" where
  "parseDigits acc [] = acc"
| "parseDigits acc (c # cs) =
     (case digitVal c of None \<Rightarrow> acc | Some d \<Rightarrow> parseDigits (10 * acc + d) cs)"

definition hexVal :: "char \<Rightarrow> nat option" where
  "hexVal c =
     (if CHR ''0'' \<le> c \<and> c \<le> CHR ''9'' then Some (of_char c - 48)
      else if CHR ''a'' \<le> c \<and> c \<le> CHR ''f'' then Some (of_char c - 87)
      else if CHR ''A'' \<le> c \<and> c \<le> CHR ''F'' then Some (of_char c - 55)
      else None)"

fun parseHex :: "nat \<Rightarrow> string \<Rightarrow> nat" where
  "parseHex acc [] = acc"
| "parseHex acc (c # cs) =
     (case hexVal c of None \<Rightarrow> acc | Some d \<Rightarrow> parseHex (16 * acc + d) cs)"

text \<open>
  The keys of a plain object are enumerated with the canonical array indices first, in
  numeric order, and the other keys after them in the order of their creation. An
  assignment to a key that exists keeps its place; a new key goes to its place in that
  order.
\<close>

definition isIndexKey :: "string \<Rightarrow> bool" where
  "isIndexKey k =
     (k \<noteq> [] \<and> list_all (\<lambda>c. digitVal c \<noteq> None) k \<and> (k = ''0'' \<or> hd k \<noteq> CHR ''0'')
      \<and> int (parseDigits 0 k) < 2 ^ 32 - 1)"

fun insertKey :: "string \<Rightarrow> 'v \<Rightarrow> (string \<times> 'v) list \<Rightarrow> (string \<times> 'v) list" where
  "insertKey k v [] = [(k, v)]"
| "insertKey k v ((k', v') # rest) =
     (if isIndexKey k \<and> (\<not> isIndexKey k' \<or> parseDigits 0 k < parseDigits 0 k')
      then (k, v) # (k', v') # rest
      else (k', v') # insertKey k v rest)"

definition objSet :: "string \<Rightarrow> 'v \<Rightarrow> (string \<times> 'v) list \<Rightarrow> (string \<times> 'v) list" where
  "objSet k v obj = (if k \<in> fst ` set obj then AList.update k v obj else insertKey k v obj)"

subsection \<open>Numbers\<close>

text \<open>
  A JavaScript Number is an IEEE-754 double. Integers below \<open>2 ^ 53\<close> in magnitude are
  exact, and on them \<^verbatim>\<open>+\<close> and \<^verbatim>\<open>-\<close> are the integer operations: masks, seeds and
  accumulators are \<open>int\<close>. A secret and the returned mean are fractions: they are
  rationals (every finite double is one), and \<open>fl\<close> rounds a rational to the nearest
  double, ties to even, in the normal range.
\<close>

function bitLength :: "int \<Rightarrow> nat" where
  "bitLength n = (if n \<le> 0 then 0 else Suc (bitLength (n div 2)))"
  by pat_completeness auto
termination
  by (relation "measure nat") auto

definition roundHalfEven :: "int \<Rightarrow> int \<Rightarrow> int" where
  "roundHalfEven n k =
     (let q = n div k; r = n mod k
      in if 2 * r < k then q else if k < 2 * r then q + 1 else if even q then q else q + 1)"

definition fl :: "rat \<Rightarrow> rat" where
  "fl x =
     (let (a, b) = quotient_of x; m = \<bar>a\<bar>
      in if a = 0 then 0
         else
           let d = int (bitLength m) - int (bitLength b);
               e = (if (if 0 \<le> d then b * 2 ^ nat d \<le> m else b \<le> m * 2 ^ nat (- d))
                    then d else d - 1);
               r = (if e \<le> 52 then roundHalfEven (m * 2 ^ nat (52 - e)) b
                    else roundHalfEven m (b * 2 ^ nat (e - 52)))
           in of_int (sgn a * r) * (if e \<le> 52 then 1 / 2 ^ nat (52 - e) else 2 ^ nat (e - 52)))"

text \<open>The integer part of a number, and the sum of two integer-valued doubles.\<close>

definition truncate :: "rat \<Rightarrow> int" where
  "truncate x = (let (a, b) = quotient_of x in sgn a * (\<bar>a\<bar> div b))"

definition toNumber :: "int \<Rightarrow> int" where
  "toNumber n = (if \<bar>n\<bar> \<le> 2 ^ 53 then n else truncate (fl (of_int n)))"

definition jsAdd :: "int \<Rightarrow> int \<Rightarrow> int" where
  "jsAdd a b = toNumber (a + b)"

text \<open>
  \<^verbatim>\<open>parseInt(s)\<close> on a string: leading white space and a sign are skipped; after the
  prefix \<^verbatim>\<open>0x\<close> or \<^verbatim>\<open>0X\<close> the longest prefix of hexadecimal digits is read, otherwise the
  longest prefix of decimal digits; the integer read is rounded to a double. \<open>None\<close> is
  \<^verbatim>\<open>NaN\<close>.
\<close>

definition parseInt :: "string \<Rightarrow> int option" where
  "parseInt s =
     (let t = dropWhile (\<lambda>c. c \<in> set [CHR '' '', CHR 0x09, CHR 0x0A, CHR 0x0B, CHR 0x0C, CHR 0x0D]) s;
          neg = (case t of [] \<Rightarrow> False | c # _ \<Rightarrow> c = CHR ''-'');
          u = (case t of [] \<Rightarrow> [] | c # cs \<Rightarrow> if c = CHR ''-'' \<or> c = CHR ''+'' then cs else t);
          hex = (take 2 u = ''0x'' \<or> take 2 u = ''0X'');
          ds = (if hex then drop 2 u else u);
          n = int (if hex then parseHex 0 ds else parseDigits 0 ds)
      in case ds of
           [] \<Rightarrow> None
         | c # _ \<Rightarrow>
             (case (if hex then hexVal c else digitVal c) of
                None \<Rightarrow> None
              | Some _ \<Rightarrow> Some (toNumber (if neg then - n else n))))"

text \<open>
  \<^verbatim>\<open>Number.parseInt(x)\<close> of a number prints the number and reads the digits before the
  first character that is not one. The print is the shortest decimal that reads back as
  \<open>x\<close>, \<open>s * 10 ^ (n - k)\<close> with \<open>k\<close> digits \<open>s\<close>, the one closest to \<open>x\<close> when there are
  several. It is written in full when \<open>- 6 < n \<le> 21\<close>, and the digits before the point
  are then the integer part of \<open>x\<close>; otherwise it is written with an exponent and only
  its first digit comes before the point. Since \<open>1\<close> and \<open>10 ^ 21\<close> are doubles, a
  number from \<open>1\<close> to below \<open>10 ^ 21\<close> in magnitude has \<open>0 < n \<le> 21\<close>.
\<close>

definition pow10 :: "int \<Rightarrow> rat" where
  "pow10 e = (if 0 \<le> e then 10 ^ nat e else 1 / 10 ^ nat (- e))"

definition floorRat :: "rat \<Rightarrow> int" where
  "floorRat x = (let (a, b) = quotient_of x in a div b)"

text \<open>The exponent \<open>e\<close> of a positive number: \<open>10 ^ e \<le> y < 10 ^ (e + 1)\<close>.\<close>

function decimalLength :: "int \<Rightarrow> nat" where
  "decimalLength n = (if n < 10 then 1 else Suc (decimalLength (n div 10)))"
  by pat_completeness auto
termination
  by (relation "measure nat") auto

definition decimalExponent :: "rat \<Rightarrow> int" where
  "decimalExponent y =
     (if 1 \<le> y then int (decimalLength (floorRat y)) - 1
      else let d = int (decimalLength (floorRat (1 / y)))
           in if pow10 (d - 1) = 1 / y then - (d - 1) else - d)"

definition digitCandidates :: "rat \<Rightarrow> int \<Rightarrow> nat \<Rightarrow> (rat \<times> int \<times> int) list" where
  "digitCandidates y e k =
     concat (map (\<lambda>n.
       concat (map (\<lambda>s.
         if 10 ^ (k - 1) \<le> s \<and> s < 10 ^ k \<and> fl (of_int s * pow10 (n - int k)) = y
         then [(\<bar>of_int s * pow10 (n - int k) - y\<bar>, s, n)] else [])
         [floorRat (y / pow10 (n - int k)), - floorRat (- (y / pow10 (n - int k)))]))
       [e, e + 1, e + 2])"

fun firstNonempty :: "'a list list \<Rightarrow> 'a list" where
  "firstNonempty [] = []"
| "firstNonempty (x # xs) = (if x = [] then firstNonempty xs else x)"

fun closest :: "(rat \<times> int \<times> int) list \<Rightarrow> (rat \<times> int \<times> int) option" where
  "closest [] = None"
| "closest (p # ps) =
     (case closest ps of
        None \<Rightarrow> Some p
      | Some q \<Rightarrow> if fst p < fst q \<or> (fst p = fst q \<and> even (fst (snd p))) then Some p else Some q)"

definition shortestDecimal :: "rat \<Rightarrow> (nat \<times> int \<times> int) option" where
  "shortestDecimal y =
     (case firstNonempty (map (\<lambda>k. map (\<lambda>c. (k, snd c))
                                        (case closest (digitCandidates y (decimalExponent y) k) of
                                           None \<Rightarrow> [] | Some c \<Rightarrow> [c]))
                           [1..<18]) of
        [] \<Rightarrow> None
      | c # _ \<Rightarrow> Some c)"

definition numberParseInt :: "rat \<Rightarrow> int" where
  "numberParseInt x =
     (if x = 0 then 0
      else if 1 \<le> \<bar>x\<bar> \<and> \<bar>x\<bar> < 10 ^ 21 then truncate x
      else case shortestDecimal \<bar>x\<bar> of
             None \<Rightarrow> truncate x
           | Some (k, s, n) \<Rightarrow>
               if - 6 < n \<and> n \<le> 21 then truncate x
               else (if x < 0 then - 1 else 1) * (s div 10 ^ (k - 1)))"

text \<open>
  \<^verbatim>\<open>x.toFixed(4)\<close> prints the integer \<open>n\<close> nearest to \<open>\<bar>x\<bar> * 10 ^ 4\<close> (the larger one
  on a tie) with four decimals and the sign of \<open>x\<close>; \<open>toFixed4\<close> is that signed integer.
\<close>

definition toFixed4 :: "rat \<Rightarrow> int" where
  "toFixed4 x =
     (let (a, b) = quotient_of (\<bar>x\<bar> * 10 ^ 4); n = (2 * a + b) div (2 * b)
      in if x < 0 then - n else n)"

text \<open>
  \<^verbatim>\<open>Number.parseInt(this.secretValue.toFixed(4) * (10**4))\<close>: the printed decimal is read
  back as a double, multiplied by \<open>10 ^ 4\<close> in double arithmetic and cut at the point.
\<close>

definition secretValueRounded :: "rat \<Rightarrow> int" where
  "secretValueRounded x = numberParseInt (fl (fl (of_int (toFixed4 x) / 10 ^ 4) * 10 ^ 4))"

text \<open>
  \<^verbatim>\<open>view.setInt32(0, v)\<close> followed by \<^verbatim>\<open>view.getInt32(0)\<close> on a four-byte \<^verbatim>\<open>DataView\<close>:
  \<^verbatim>\<open>ToInt32\<close>, the representative of \<open>v\<close> modulo \<open>2 ^ 32\<close> in \<open>[- 2 ^ 31, 2 ^ 31)\<close>.
\<close>

definition setInt32 :: "int \<Rightarrow> int" where
  "setInt32 v = (v + 2 ^ 31) mod 2 ^ 32 - 2 ^ 31"

text \<open>
  \<^verbatim>\<open>new DataView(buffer, 0).getInt16(1)\<close>: the big-endian signed 16-bit integer in bytes
  1 and 2 of the buffer; a \<^verbatim>\<open>RangeError\<close> when the buffer is shorter than three bytes.
\<close>

definition getInt16 :: "bytes \<Rightarrow> nat \<Rightarrow> error + int" where
  "getInt16 buf off =
     (if off + 2 \<le> length buf
      then Inr (sint (word_of_nat (256 * of_char (buf ! off) + of_char (buf ! (off + 1))) :: 16 word))
      else Inl RangeError)"

section \<open>The libraries\<close>

text \<open>
  WebCrypto (\<^verbatim>\<open>subtle\<close>), \<^verbatim>\<open>random-seed\<close> (\<^verbatim>\<open>gen\<close>) and \<^verbatim>\<open>shamir\<close> (\<^verbatim>\<open>split\<close>, \<^verbatim>\<open>join\<close>) are
  packages the repository imports. They are parameters of the embedding. A key of any
  kind is a \<^verbatim>\<open>CryptoKey\<close>, the type \<open>'k\<close>. Fresh randomness is an argument of the
  operation that draws it; \<open>None\<close> is a call that throws.
  \<^item> \<open>gen_create P s n\<close> is draw number \<open>n\<close> of \<^verbatim>\<open>gen.create(s)(2 ** 32)\<close>;
  \<^item> \<open>subtle_exportKey\<close> is \<^verbatim>\<open>exportKey("jwk", k)\<close> through \<^verbatim>\<open>JSON.stringify\<close> and the
    encoder, \<open>subtle_importKey\<close> the way back through the decoder, \<^verbatim>\<open>JSON.parse\<close> and
    \<^verbatim>\<open>importKey\<close>;
  \<^item> \<open>subtle_deriveBits\<close> is \<^verbatim>\<open>deriveBits\<close> for 128 bits, \<open>subtle_deriveKey\<close> is
    \<^verbatim>\<open>deriveKey\<close> for AES-GCM with 256 bits;
  \<^item> \<open>subtle_encrypt k iv m\<close> and \<open>subtle_decrypt k iv c\<close> are AES-GCM;
  \<^item> \<open>shamir_split r n t secret\<close> is the object of the \<open>n\<close> shares, keyed from 1;
    \<open>shamir_join\<close> takes the object built from share indices and split strings.
\<close>

datatype seed = Seed int | SeedNaN

record prng =
  prngSeed :: seed
  prngCount :: nat

record 'k prims =
  subtle_generateKey :: "nat \<Rightarrow> 'k \<times> 'k"
  subtle_exportKey :: "'k \<Rightarrow> bytes"
  subtle_importKey :: "bytes \<Rightarrow> 'k option"
  subtle_deriveBits :: "'k \<Rightarrow> 'k \<Rightarrow> bytes option"
  subtle_deriveKey :: "'k \<Rightarrow> 'k \<Rightarrow> 'k option"
  subtle_encrypt :: "'k \<Rightarrow> bytes \<Rightarrow> string \<Rightarrow> bytes option"
  subtle_decrypt :: "'k \<Rightarrow> bytes \<Rightarrow> bytes \<Rightarrow> string option"
  shamir_split :: "nat \<Rightarrow> nat \<Rightarrow> nat \<Rightarrow> bytes \<Rightarrow> (nat \<times> bytes) list option"
  shamir_join :: "(string \<times> string list) list \<Rightarrow> bytes option"
  gen_create :: "seed \<Rightarrow> nat \<Rightarrow> int"

subsection \<open>helper.js\<close>

record ciphertext =
  ciphertextBytes :: bytes
  iv :: bytes

definition getPRNGFromSeed :: "int \<Rightarrow> prng" where
  "getPRNGFromSeed s = \<lparr>prngSeed = Seed s, prngCount = 0\<rparr>"

text \<open>One call \<^verbatim>\<open>PRNG(2 ** 32)\<close>: the next draw, and the generator moved on.\<close>

definition prngNext :: "'k prims \<Rightarrow> prng \<Rightarrow> int \<times> prng" where
  "prngNext P g = (gen_create P (prngSeed g) (prngCount g), g\<lparr>prngCount := Suc (prngCount g)\<rparr>)"

definition deriveEncryptionKey :: "'k prims \<Rightarrow> 'k option \<Rightarrow> 'k option \<Rightarrow> error + 'k" where
  "deriveEncryptionKey P privateKey publicKey =
     (case (privateKey, publicKey) of
        (Some sk, Some pk) \<Rightarrow> orThrow LibraryError (subtle_deriveKey P sk pk)
      | _ \<Rightarrow> Inl TypeError)"

definition deriveSharedNumber :: "'k prims \<Rightarrow> 'k option \<Rightarrow> 'k option \<Rightarrow> error + bytes" where
  "deriveSharedNumber P privateKey publicKey =
     (case (privateKey, publicKey) of
        (Some sk, Some pk) \<Rightarrow> orThrow LibraryError (subtle_deriveBits P sk pk)
      | _ \<Rightarrow> Inl TypeError)"

definition AESGCMEncrypt :: "'k prims \<Rightarrow> 'k option \<Rightarrow> bytes \<Rightarrow> string \<Rightarrow> error + ciphertext" where
  "AESGCMEncrypt P key iv0 message =
     (case key of
        None \<Rightarrow> Inl TypeError
      | Some k \<Rightarrow>
          bindE (orThrow LibraryError (subtle_encrypt P k iv0 message))
            (\<lambda>ct. Inr \<lparr>ciphertextBytes = ct, iv = iv0\<rparr>))"

definition AESGCMDecrypt :: "'k prims \<Rightarrow> 'k option \<Rightarrow> bytes \<Rightarrow> bytes \<Rightarrow> error + string" where
  "AESGCMDecrypt P key ct iv0 =
     (case key of
        None \<Rightarrow> Inl TypeError
      | Some k \<Rightarrow> orThrow DecryptionFailed (subtle_decrypt P k iv0 ct))"

section \<open>The store\<close>

text \<open>
  An entry of a client list is an object of class \<^verbatim>\<open>ClientForServer\<close> (on the server and
  in its broadcast) or \<^verbatim>\<open>ClientForClient\<close> (built by a client in round 1); a client
  later adds the property \<^verbatim>\<open>ciphertext\<close>. One record holds the properties of both,
  \<open>None\<close> for a property the object does not have. (\<^verbatim>\<open>ClientForServer.isUp\<close> is set once
  and never read, and is left out.) \<open>peerClient\<close> is the position of the \<^verbatim>\<open>Client\<close>
  object in the server's array \<^verbatim>\<open>clients\<close>.
\<close>

record 'k entry =
  peerId :: pid
  peerClient :: "nat option"
  peerSeedPublicKey :: "'k option"
  peerEncryptionPublicKey :: "'k option"
  peerSeed :: "int option"
  peerAESKey :: "'k option"
  peerPRNG :: "prng option"
  peerCiphertext :: "ciphertext option"

definition ClientForServer :: "nat \<Rightarrow> pid \<Rightarrow> 'k option \<Rightarrow> 'k option \<Rightarrow> 'k entry" where
  "ClientForServer cl i spk epk =
     \<lparr>peerId = i, peerClient = Some cl, peerSeedPublicKey = spk, peerEncryptionPublicKey = epk,
      peerSeed = None, peerAESKey = None, peerPRNG = None, peerCiphertext = None\<rparr>"

definition ClientForClient :: "pid \<Rightarrow> 'k option \<Rightarrow> int \<Rightarrow> 'k \<Rightarrow> prng \<Rightarrow> 'k entry" where
  "ClientForClient i spk s aes g =
     \<lparr>peerId = i, peerClient = None, peerSeedPublicKey = spk, peerEncryptionPublicKey = None,
      peerSeed = Some s, peerAESKey = Some aes, peerPRNG = Some g, peerCiphertext = None\<rparr>"

type_synonym 'k clientMap = "(pid \<times> 'k entry) list"
type_synonym 'k heap = "'k clientMap list"

definition deref :: "'k heap \<Rightarrow> ref \<Rightarrow> 'k clientMap option" where
  "deref H r = (if r < length H then Some (H ! r) else None)"

definition alloc :: "'k heap \<Rightarrow> 'k clientMap \<Rightarrow> 'k heap \<times> ref" where
  "alloc H obj = (H @ [obj], length H)"

text \<open>The keys a \<^verbatim>\<open>for ... in\<close> loop visits; none when the variable is \<^verbatim>\<open>undefined\<close>.\<close>

definition forInKeys :: "'k heap \<Rightarrow> ref option \<Rightarrow> pid list" where
  "forInKeys H v =
     (case v of None \<Rightarrow> [] | Some r \<Rightarrow> (case deref H r of None \<Rightarrow> [] | Some obj \<Rightarrow> map fst obj))"

text \<open>\<^verbatim>\<open>v[k]\<close> for a variable holding a client list: a \<^verbatim>\<open>TypeError\<close> when \<open>v\<close> is undefined.\<close>

definition readEntry :: "'k heap \<Rightarrow> ref option \<Rightarrow> pid \<Rightarrow> error + 'k entry option" where
  "readEntry H v k =
     (case v of
        None \<Rightarrow> Inl TypeError
      | Some r \<Rightarrow> (case deref H r of None \<Rightarrow> Inl TypeError | Some obj \<Rightarrow> Inr (map_of obj k)))"

definition writeEntry :: "'k heap \<Rightarrow> ref \<Rightarrow> pid \<Rightarrow> 'k entry \<Rightarrow> 'k heap" where
  "writeEntry H r k e = H[r := AList.update k e (H ! r)]"

definition deleteKey :: "'k heap \<Rightarrow> ref option \<Rightarrow> pid \<Rightarrow> error + 'k heap" where
  "deleteKey H v k =
     (case v of
        None \<Rightarrow> Inl TypeError
      | Some r \<Rightarrow> if r < length H then Inr (H[r := AList.delete k (H ! r)]) else Inl TypeError)"

section \<open>client.js\<close>

text \<open>
  A share answer of round 3: \<^verbatim>\<open>{'seedSplit': ..., 'index': ...}\<close> for a surviving peer,
  \<^verbatim>\<open>{'keySplit': ..., 'index': ...}\<close> for a dropped one. A field is \<open>None\<close> when the object
  does not have it or holds \<^verbatim>\<open>undefined\<close>. The index is kept as the string it becomes
  when the server uses it as a key.
\<close>

record splitEntry =
  keySplit :: "string option"
  seedSplit :: "string option"
  index :: "string option"

text \<open>
  The fields of a \<^verbatim>\<open>Client\<close>; the field \<^verbatim>\<open>id\<close> is \<open>cid\<close>. A field the constructor does
  not set is \<open>None\<close> until an operation assigns it.
\<close>

record 'k client =
  cid :: pid
  secretValue :: rat
  nbClients :: nat
  threshold :: nat
  isUp :: bool
  seedPrivateKey :: "'k option"
  seedPublicKey :: "'k option"
  encryptionPrivateKey :: "'k option"
  encryptionPublicKey :: "'k option"
  clientList :: "ref option"
  selfMaskSeed :: "int option"
  secretKeyShamir :: "(nat \<times> bytes) list option"
  selfMaskSeedShamir :: "(nat \<times> bytes) list option"
  ownPrivateKeyShare :: "bytes option"
  ownSelfMaskSeedShare :: "bytes option"
  ownIndex :: "nat option"
  ciphertexts :: "(string \<times> ciphertext) list option"
  clientListU2 :: "ref option"
  maskedGradient :: "int option"
  clientIDsU2 :: "pid list option"
  clientIDsU3 :: "pid list option"
  IDsinU2NotInU3 :: "pid list option"
  splits :: "(pid \<times> splitEntry) list option"

definition newClient :: "pid \<Rightarrow> rat \<Rightarrow> nat \<Rightarrow> nat \<Rightarrow> 'k client" where
  "newClient i v n t =
     \<lparr>cid = i, secretValue = v, nbClients = n, threshold = t, isUp = True,
      seedPrivateKey = None, seedPublicKey = None,
      encryptionPrivateKey = None, encryptionPublicKey = None,
      clientList = None, selfMaskSeed = None, secretKeyShamir = None,
      selfMaskSeedShamir = None, ownPrivateKeyShare = None, ownSelfMaskSeedShare = None,
      ownIndex = None, ciphertexts = None, clientListU2 = None, maskedGradient = None,
      clientIDsU2 = None, clientIDsU3 = None, IDsinU2NotInU3 = None, splits = None\<rparr>"

subsection \<open>Round 0\<close>

definition generateKeyPairs :: "'k prims \<Rightarrow> nat \<Rightarrow> nat \<Rightarrow> 'k client \<Rightarrow> 'k client" where
  "generateKeyPairs P r1 r2 c =
     (let seedKey = subtle_generateKey P r1; encryptionKey = subtle_generateKey P r2
      in c\<lparr>seedPrivateKey := Some (fst seedKey), seedPublicKey := Some (snd seedKey),
           encryptionPrivateKey := Some (fst encryptionKey),
           encryptionPublicKey := Some (snd encryptionKey)\<rparr>)"

definition round0 :: "'k prims \<Rightarrow> nat \<Rightarrow> nat \<Rightarrow> 'k client \<Rightarrow> 'k client" where
  "round0 P r1 r2 c = generateKeyPairs P r1 r2 c"

subsection \<open>Round 1\<close>

text \<open>
  \<^verbatim>\<open>receiveClients(clientList)\<close>. The server passes its \<^verbatim>\<open>clientList\<close>, a plain object
  keyed by client id, so the argument is the address of a client map. The function
  reads \<^verbatim>\<open>clientList.length\<close> and \<^verbatim>\<open>clientList[i]\<close> for numbers \<open>i\<close>: on an object these are
  reads of the properties named \<^verbatim>\<open>length\<close> and the decimal of \<open>i\<close>. No entry has a property
  \<^verbatim>\<open>publicKey\<close>, so both sides of \<^verbatim>\<open>==\<close> are \<^verbatim>\<open>undefined\<close> whenever the comparison is
  reached; reading it from a missing entry is a \<^verbatim>\<open>TypeError\<close>. The message of the first
  \<^verbatim>\<open>throw\<close> reads \<^verbatim>\<open>this.clientList.length\<close>, a \<^verbatim>\<open>TypeError\<close> while \<^verbatim>\<open>this.clientList\<close> is
  still undefined.
\<close>

definition publicKeysEqual :: "'k entry jsval \<Rightarrow> 'k entry jsval \<Rightarrow> error + bool" where
  "publicKeysEqual a b =
     (case a of Undefined \<Rightarrow> Inl TypeError
      | _ \<Rightarrow> (case b of Undefined \<Rightarrow> Inl TypeError | _ \<Rightarrow> Inr True))"

function collisionInner :: "'k clientMap \<Rightarrow> int \<Rightarrow> int \<Rightarrow> error + bool" where
  "collisionInner obj i j =
     (if js_lt (Num j) (getProp obj ''length'')
      then bindE (publicKeysEqual (getProp obj (intToString i)) (getProp obj (intToString j)))
             (\<lambda>eq. if eq then Inr True else collisionInner obj i (j + 1))
      else Inr False)"
  by pat_completeness auto
termination
  by (relation "{}") (auto simp: getProp_def split: option.splits)

function collisionOuter :: "'k clientMap \<Rightarrow> int \<Rightarrow> error + bool" where
  "collisionOuter obj i =
     (if js_lt (Num i) (getProp obj ''length'')
      then bindE (collisionInner obj i (i + 1))
             (\<lambda>found. if found then Inr True else collisionOuter obj (i + 1))
      else Inr False)"
  by pat_completeness auto
termination
  by (relation "{}") (auto simp: getProp_def split: option.splits)

definition receiveClients :: "'k heap \<Rightarrow> 'k client \<Rightarrow> ref \<Rightarrow> error + 'k client" where
  "receiveClients H c r =
     bindE (orThrow TypeError (deref H r)) (\<lambda>obj.
       if js_lt (getProp obj ''length'') (Num (int (threshold c)))
       then (case clientList c of None \<Rightarrow> Inl TypeError | Some _ \<Rightarrow> Inl TooFewClients)
       else bindE (collisionOuter obj 0) (\<lambda>found.
         if found then Inl KeyCollision else Inr (c\<lparr>clientList := Some r\<rparr>)))"

text \<open>Fresh randomness of round 1: the self-mask seed, the two sharings, one IV per peer.\<close>

record entropy =
  rndSelfMaskSeed :: int
  rndKeyShares :: nat
  rndSeedShares :: nat
  rndIV :: "nat \<Rightarrow> bytes"

definition generateSelfMaskSeed :: "int \<Rightarrow> 'k client \<Rightarrow> 'k client" where
  "generateSelfMaskSeed r c = c\<lparr>selfMaskSeed := Some (r mod 2 ^ 32)\<rparr>"

definition generateSecretKeyShares :: "'k prims \<Rightarrow> nat \<Rightarrow> 'k client \<Rightarrow> error + 'k client" where
  "generateSecretKeyShares P r c =
     bindE (orThrow TypeError (seedPrivateKey c)) (\<lambda>sk.
     bindE (orThrow LibraryError (shamir_split P r (nbClients c) (threshold c) (subtle_exportKey P sk)))
       (\<lambda>sh. Inr (c\<lparr>secretKeyShamir := Some sh\<rparr>)))"

definition generateSelfMaskSeedShares :: "'k prims \<Rightarrow> nat \<Rightarrow> 'k client \<Rightarrow> error + 'k client" where
  "generateSelfMaskSeedShares P r c =
     (let secretKeyByte = (case selfMaskSeed c of None \<Rightarrow> [] | Some s \<Rightarrow> intToString s)
      in bindE (orThrow LibraryError (shamir_split P r (nbClients c) (threshold c) secretKeyByte))
           (\<lambda>sh. Inr (c\<lparr>selfMaskSeedShamir := Some sh\<rparr>)))"

fun pairwiseLoop ::
  "'k prims \<Rightarrow> 'k client \<Rightarrow> 'k clientMap \<Rightarrow> pid list \<Rightarrow> 'k clientMap \<Rightarrow> error + 'k clientMap" where
  "pairwiseLoop P c obj [] clientList' = Inr clientList'"
| "pairwiseLoop P c obj (clientIteratedID # ks) clientList' =
     (if clientIteratedID \<noteq> cid c
      then bindE (orThrow TypeError (map_of obj clientIteratedID)) (\<lambda>e.
           bindE (deriveSharedNumber P (seedPrivateKey c) (peerSeedPublicKey e)) (\<lambda>seedBuffer.
           bindE (getInt16 seedBuffer 1) (\<lambda>seed.
           bindE (deriveEncryptionKey P (encryptionPrivateKey c) (peerEncryptionPublicKey e)) (\<lambda>AESKey.
             pairwiseLoop P c obj ks
               (AList.update clientIteratedID
                  (ClientForClient clientIteratedID (peerSeedPublicKey e) seed AESKey
                     (getPRNGFromSeed seed))
                  clientList')))))
      else pairwiseLoop P c obj ks clientList')"

definition computePairwiseEncryption ::
  "'k prims \<Rightarrow> 'k heap \<Rightarrow> 'k client \<Rightarrow> error + ('k heap \<times> 'k client)" where
  "computePairwiseEncryption P H c =
     (let obj = (case clientList c of None \<Rightarrow> []
                 | Some r \<Rightarrow> (case deref H r of None \<Rightarrow> [] | Some ob \<Rightarrow> ob))
      in bindE (pairwiseLoop P c obj (map fst obj) []) (\<lambda>clientList'.
           Inr (fst (alloc H clientList'), c\<lparr>clientList := Some (snd (alloc H clientList'))\<rparr>)))"

text \<open>
  The plaintext of \<^verbatim>\<open>generateCiphertexts\<close>: sender, recipient, the two shares read at
  \<^verbatim>\<open>index\<close> and the index, separated by \<^verbatim>\<open>|\<close>.
\<close>

definition secretOf ::
  "pid \<Rightarrow> pid \<Rightarrow> (nat \<times> bytes) list \<Rightarrow> (nat \<times> bytes) list \<Rightarrow> nat \<Rightarrow> string" where
  "secretOf me clientIteratedID keyShares seedShares index0 =
     me @ ''|'' @ clientIteratedID @ ''|''
     @ shareToString (map_of keyShares index0) @ ''|''
     @ shareToString (map_of seedShares index0) @ ''|'' @ natToString index0"

fun ciphertextLoop ::
  "'k prims \<Rightarrow> 'k client \<Rightarrow> (nat \<Rightarrow> bytes) \<Rightarrow> 'k heap \<Rightarrow> pid list \<Rightarrow> nat \<Rightarrow>
   (string \<times> ciphertext) list \<Rightarrow> error + ((string \<times> ciphertext) list \<times> nat)" where
  "ciphertextLoop P c ivs H [] index0 acc = Inr (acc, index0)"
| "ciphertextLoop P c ivs H (clientIteratedID # ks) index0 acc =
     (if clientIteratedID \<noteq> cid c
      then bindE (orThrow TypeError (secretKeyShamir c)) (\<lambda>keyShares.
           bindE (orThrow TypeError (selfMaskSeedShamir c)) (\<lambda>seedShares.
           bindE (readEntry H (clientList c) clientIteratedID) (\<lambda>e.
           bindE (orThrow TypeError e) (\<lambda>e.
           bindE (AESGCMEncrypt P (peerAESKey e) (ivs index0)
                    (secretOf (cid c) clientIteratedID keyShares seedShares index0)) (\<lambda>ct.
             ciphertextLoop P c ivs H ks (index0 + 1)
               (AList.update (cid c @ ''|'' @ clientIteratedID) ct acc))))))
      else ciphertextLoop P c ivs H ks (index0 + 1) acc)"

definition generateCiphertexts ::
  "'k prims \<Rightarrow> (nat \<Rightarrow> bytes) \<Rightarrow> 'k heap \<Rightarrow> 'k client \<Rightarrow> error + 'k client" where
  "generateCiphertexts P ivs H c =
     bindE (ciphertextLoop P c ivs H (forInKeys H (clientList c)) 1 []) (\<lambda>(cts, index0).
     bindE (orThrow TypeError (secretKeyShamir c)) (\<lambda>keyShares.
     bindE (orThrow TypeError (selfMaskSeedShamir c)) (\<lambda>seedShares.
       Inr (c\<lparr>ownPrivateKeyShare := map_of keyShares index0,
              ownSelfMaskSeedShare := map_of seedShares index0,
              ownIndex := Some index0,
              ciphertexts := Some cts\<rparr>))))"

definition round1 ::
  "'k prims \<Rightarrow> entropy \<Rightarrow> 'k heap \<Rightarrow> 'k client \<Rightarrow> error + ('k heap \<times> 'k client)" where
  "round1 P rnd H c =
     (if isUp c
      then bindE (generateSecretKeyShares P (rndKeyShares rnd) (generateSelfMaskSeed (rndSelfMaskSeed rnd) c)) (\<lambda>c1.
           bindE (generateSelfMaskSeedShares P (rndSeedShares rnd) c1) (\<lambda>c2.
           bindE (computePairwiseEncryption P H c2) (\<lambda>(H3, c3).
           bindE (generateCiphertexts P (rndIV rnd) H3 c3) (\<lambda>c4. Inr (H3, c4)))))
      else Inr (H, c))"

subsection \<open>Round 2\<close>

text \<open>
  \<^verbatim>\<open>receiveCiphertexts(ciphertexts)\<close>: the bundle is an object keyed by
  \<^verbatim>\<open>sender|recipient\<close>. The first loop stores each ciphertext in the sender's entry; then
  \<^verbatim>\<open>this.clientListU2 = this.clientList\<close> copies the address, and the second loop deletes
  through \<^verbatim>\<open>clientListU2\<close> every key whose entry has no ciphertext.
\<close>

fun storeCiphertexts ::
  "'k heap \<Rightarrow> ref option \<Rightarrow> (string \<times> ciphertext) list \<Rightarrow> nat \<Rightarrow> error + ('k heap \<times> nat)" where
  "storeCiphertexts H v [] count = Inr (H, count)"
| "storeCiphertexts H v ((clientsID, ct) # rest) count =
     (let clientID = hd (splitOn CHR ''|'' clientsID)
      in bindE (readEntry H v clientID) (\<lambda>e.
         bindE (orThrow TypeError e) (\<lambda>e.
           storeCiphertexts (writeEntry H (the v) clientID (e\<lparr>peerCiphertext := Some ct\<rparr>)) v rest
             (count + 1))))"

fun deleteWithoutCiphertext ::
  "'k heap \<Rightarrow> ref option \<Rightarrow> ref option \<Rightarrow> pid list \<Rightarrow> error + 'k heap" where
  "deleteWithoutCiphertext H v vU2 [] = Inr H"
| "deleteWithoutCiphertext H v vU2 (clientIteratedID # ks) =
     bindE (readEntry H v clientIteratedID) (\<lambda>e.
     bindE (orThrow TypeError e) (\<lambda>e.
       if peerCiphertext e = None
       then bindE (deleteKey H vU2 clientIteratedID) (\<lambda>H'. deleteWithoutCiphertext H' v vU2 ks)
       else deleteWithoutCiphertext H v vU2 ks))"

definition receiveCiphertexts ::
  "'k heap \<Rightarrow> 'k client \<Rightarrow> (string \<times> ciphertext) list \<Rightarrow> error + ('k heap \<times> 'k client)" where
  "receiveCiphertexts H c cts =
     bindE (storeCiphertexts H (clientList c) cts 0) (\<lambda>(H1, count).
       let c1 = c\<lparr>clientListU2 := clientList c\<rparr>
       in bindE (deleteWithoutCiphertext H1 (clientList c1) (clientListU2 c1)
                   (forInKeys H1 (clientList c1))) (\<lambda>H2.
            if int count < int (threshold c1) - 1 then Inl TooFewCiphertexts else Inr (H2, c1)))"

text \<open>
  \<^verbatim>\<open>computeMaskedInputVector()\<close>. The four-byte view starts at 0. For every key of
  \<^verbatim>\<open>clientListU2\<close> the generator stored in \<^verbatim>\<open>clientList\<close> under that key is drawn once, and
  the draw is added when the key is below the client's id and subtracted when it is
  above. Then come the rounded secret and the self mask, the first draw of a generator
  made from \<^verbatim>\<open>selfMaskSeed\<close>. The rounded secret is the one number here that can exceed
  \<open>2 ^ 53\<close>, so its sum with the view is a sum of doubles. With no seed
  \<^verbatim>\<open>gen.create(undefined)\<close> seeds itself at random, the argument \<open>r\<close>.
\<close>

fun maskLoop ::
  "'k prims \<Rightarrow> pid \<Rightarrow> ref option \<Rightarrow> 'k heap \<Rightarrow> pid list \<Rightarrow> int \<Rightarrow> error + ('k heap \<times> int)" where
  "maskLoop P me v H [] view = Inr (H, view)"
| "maskLoop P me v H (clientIteratedID # ks) view =
     bindE (readEntry H v clientIteratedID) (\<lambda>e.
     bindE (orThrow TypeError e) (\<lambda>e.
     bindE (orThrow TypeError (peerPRNG e)) (\<lambda>g.
       let mask = fst (prngNext P g);
           H' = writeEntry H (the v) clientIteratedID (e\<lparr>peerPRNG := Some (snd (prngNext P g))\<rparr>)
       in if clientIteratedID < me then maskLoop P me v H' ks (setInt32 (view + mask))
          else if me < clientIteratedID then maskLoop P me v H' ks (setInt32 (view - mask))
          else maskLoop P me v H' ks view)))"

definition computeMaskedInputVector ::
  "'k prims \<Rightarrow> int \<Rightarrow> 'k heap \<Rightarrow> 'k client \<Rightarrow> error + ('k heap \<times> 'k client)" where
  "computeMaskedInputVector P r H c =
     bindE (maskLoop P (cid c) (clientList c) H (forInKeys H (clientListU2 c)) (setInt32 0))
       (\<lambda>(H', view).
          let view1 = setInt32 (jsAdd view (secretValueRounded (secretValue c)));
              selfMask = (case selfMaskSeed c of
                            None \<Rightarrow> r mod 2 ^ 32
                          | Some s \<Rightarrow> gen_create P (Seed s) 0)
          in Inr (H', c\<lparr>maskedGradient := Some (setInt32 (view1 + selfMask))\<rparr>))"

definition round2 ::
  "'k prims \<Rightarrow> int \<Rightarrow> 'k heap \<Rightarrow> 'k client \<Rightarrow> error + ('k heap \<times> 'k client)" where
  "round2 P r H c = (if isUp c then computeMaskedInputVector P r H c else Inr (H, c))"

subsection \<open>Round 3\<close>

definition receiveclientIDsU3 :: "'k heap \<Rightarrow> 'k client \<Rightarrow> pid list \<Rightarrow> error + 'k client" where
  "receiveclientIDsU3 H c ids =
     (if int (length ids) < int (threshold c) then Inl TooFewSurvivors
      else
        bindE (orThrow TypeError (clientListU2 c)) (\<lambda>r.
        bindE (orThrow TypeError (deref H r)) (\<lambda>obj.
          let u2 = map fst obj;
              IDsInU3NotinU2 = filter (\<lambda>key. key \<notin> set u2) ids
          in if 1 < length IDsInU3NotinU2 then Inl MembershipViolation
             else Inr (c\<lparr>clientIDsU2 := Some u2, clientIDsU3 := Some ids,
                         IDsinU2NotInU3 := Some (filter (\<lambda>key. key \<notin> set ids) u2)\<rparr>))))"

fun decryptLoop ::
  "'k prims \<Rightarrow> 'k client \<Rightarrow> 'k heap \<Rightarrow> pid list \<Rightarrow> (pid \<times> splitEntry) list \<Rightarrow>
   error + (pid \<times> splitEntry) list" where
  "decryptLoop P c H [] acc = Inr acc"
| "decryptLoop P c H (clientIteratedID # ks) acc =
     (if clientIteratedID \<noteq> cid c
      then bindE (readEntry H (clientList c) clientIteratedID) (\<lambda>e.
           bindE (orThrow TypeError e) (\<lambda>e.
           bindE (orThrow TypeError (peerCiphertext e)) (\<lambda>ct.
           bindE (AESGCMDecrypt P (peerAESKey e) (ciphertextBytes ct) (iv ct)) (\<lambda>decoded.
             let correctCipher = splitOn CHR ''|'' decoded
             in if nthOpt correctCipher 0 \<noteq> Some clientIteratedID then Inl CiphertextMisdirected
                else if nthOpt correctCipher 1 \<noteq> Some (cid c) then Inl CiphertextMisdirected
                else bindE (orThrow TypeError (clientIDsU3 c)) (\<lambda>u3.
                  decryptLoop P c H ks
                    (objSet clientIteratedID
                       (if clientIteratedID \<in> set u3
                        then \<lparr>keySplit = None, seedSplit = nthOpt correctCipher 3,
                              index = nthOpt correctCipher 4\<rparr>
                        else \<lparr>keySplit = nthOpt correctCipher 2, seedSplit = None,
                              index = nthOpt correctCipher 4\<rparr>)
                       acc))))))
      else decryptLoop P c H ks acc)"

definition decryptCiphertext :: "'k prims \<Rightarrow> 'k heap \<Rightarrow> 'k client \<Rightarrow> error + 'k client" where
  "decryptCiphertext P H c =
     bindE (decryptLoop P c H (forInKeys H (clientListU2 c)) []) (\<lambda>sp.
     bindE (orThrow TypeError (ownSelfMaskSeedShare c)) (\<lambda>own.
       Inr (c\<lparr>splits := Some (objSet (cid c)
                  \<lparr>keySplit = None, seedSplit = Some (uint8ArrayToString own),
                   index = map_option natToString (ownIndex c)\<rparr> sp)\<rparr>)))"

definition round3 :: "'k prims \<Rightarrow> 'k heap \<Rightarrow> 'k client \<Rightarrow> error + 'k client" where
  "round3 P H c = (if isUp c then decryptCiphertext P H c else Inr c)"

definition putDown :: "'k client \<Rightarrow> 'k client" where
  "putDown c = c\<lparr>isUp := False\<rparr>"

section \<open>server.js\<close>

text \<open>
  The fields of the \<^verbatim>\<open>Server\<close> that rounds 1 to 3 use, with the suffix \<open>S\<close> where a
  \<^verbatim>\<open>Client\<close> has a field of the same name. The array \<^verbatim>\<open>this.clients\<close> of \<^verbatim>\<open>Client\<close> objects
  is an argument of every operation that reads or calls a client; an entry names its
  client by the position in that array.
\<close>

record 'k server =
  thresholdS :: nat
  clientListS :: "ref option"
  clientListU2S :: "ref option"
  clientIDsU2S :: "pid list option"
  clientIDsU3S :: "pid list option"
  clientU2NotInU3 :: "pid list option"
  agg :: "int option"
  clientIDsU5 :: "pid list option"
  keyStocker :: "(pid \<times> (pid \<times> splitEntry option) list) list option"
  seedStocker :: "(pid \<times> (pid \<times> splitEntry option) list) list option"
  keysRetrieved :: "(pid \<times> 'k) list option"
  seedRecovered :: "(pid \<times> string) list option"

text \<open>\<^verbatim>\<open>entry.client\<close>, the \<^verbatim>\<open>Client\<close> object behind an entry.\<close>

definition clientOf :: "'k client list \<Rightarrow> 'k entry \<Rightarrow> error + 'k client" where
  "clientOf cs e = bindE (orThrow TypeError (peerClient e)) (\<lambda>i. orThrow TypeError (nthOpt cs i))"

subsection \<open>Round 1\<close>

text \<open>
  \<^verbatim>\<open>computeU2()\<close>: \<^verbatim>\<open>this.clientListU2 = this.clientList\<close> copies the address; the loop
  deletes through \<^verbatim>\<open>clientListU2\<close> every key whose client is down. The test reads
  \<^verbatim>\<open>this.clientListU2.length\<close>, the property named \<^verbatim>\<open>length\<close> of a plain object.
\<close>

fun deleteDown ::
  "'k client list \<Rightarrow> 'k heap \<Rightarrow> ref option \<Rightarrow> ref option \<Rightarrow> pid list \<Rightarrow> error + 'k heap" where
  "deleteDown cs H v vU2 [] = Inr H"
| "deleteDown cs H v vU2 (clientIteratedID # ks) =
     bindE (readEntry H v clientIteratedID) (\<lambda>e.
     bindE (orThrow TypeError e) (\<lambda>e.
     bindE (clientOf cs e) (\<lambda>c.
       if \<not> isUp c
       then bindE (deleteKey H vU2 clientIteratedID) (\<lambda>H'. deleteDown cs H' v vU2 ks)
       else deleteDown cs H v vU2 ks)))"

definition computeU2 ::
  "'k client list \<Rightarrow> 'k heap \<Rightarrow> 'k server \<Rightarrow> error + ('k heap \<times> 'k server)" where
  "computeU2 cs H S =
     (let S1 = S\<lparr>clientListU2S := clientListS S\<rparr>
      in bindE (deleteDown cs H (clientListS S1) (clientListU2S S1) (forInKeys H (clientListS S1)))
           (\<lambda>H'.
              bindE (orThrow TypeError (clientListU2S S1)) (\<lambda>r.
              bindE (orThrow TypeError (deref H' r)) (\<lambda>obj.
                if js_lt (getProp obj ''length'') (Num (int (thresholdS S1)))
                then Inl BelowThreshold
                else Inr (H', S1)))))"

subsection \<open>Round 2\<close>








subsection \<open>Round 3\<close>





















text \<open>
  \<^verbatim>\<open>aggregateWithoutSecrecy()\<close>: the plain mean of the secrets of U3, summed and divided
  as doubles.
\<close>

fun plainLoop ::
  "'k client list \<Rightarrow> 'k heap \<Rightarrow> ref option \<Rightarrow> pid list \<Rightarrow> pid list \<Rightarrow> rat \<times> nat \<Rightarrow> error + (rat \<times> nat)" where
  "plainLoop cs H v u3 [] acc = Inr acc"
| "plainLoop cs H v u3 (clientIteratedID # ks) (sum0, count) =
     (if clientIteratedID \<in> set u3
      then bindE (readEntry H v clientIteratedID) (\<lambda>e.
           bindE (orThrow TypeError e) (\<lambda>e.
           bindE (clientOf cs e) (\<lambda>c.
             plainLoop cs H v u3 ks (fl (sum0 + secretValue c), count + 1))))
      else plainLoop cs H v u3 ks (sum0, count))"

definition aggregateWithoutSecrecy ::
  "'k client list \<Rightarrow> 'k heap \<Rightarrow> 'k server \<Rightarrow> error + rat option" where
  "aggregateWithoutSecrecy cs H S =
     (if forInKeys H (clientListS S) = [] then Inr None
      else bindE (orThrow TypeError (clientIDsU3S S)) (\<lambda>u3.
           bindE (plainLoop cs H (clientListS S) u3 (forInKeys H (clientListS S)) (0, 0))
             (\<lambda>(sum0, count). Inr (if count = 0 then None else Some (fl (sum0 / of_nat count))))))"

section \<open>Any sequence of calls on one client\<close>

text \<open>
  One step is one call of a method of \<^verbatim>\<open>Client\<close> that returns, on the client and the
  store; the last rule is a change of the store made by somebody else.
\<close>

inductive clientStep :: "'k prims \<Rightarrow> 'k heap \<times> 'k client \<Rightarrow> 'k heap \<times> 'k client \<Rightarrow> bool"
  for P :: "'k prims" where
  step_generateKeyPairs: "clientStep P (H, c) (H, generateKeyPairs P r1 r2 c)"
| step_round0: "clientStep P (H, c) (H, round0 P r1 r2 c)"
| step_receiveClients: "receiveClients H c r = Inr c' \<Longrightarrow> clientStep P (H, c) (H, c')"
| step_generateSelfMaskSeed: "clientStep P (H, c) (H, generateSelfMaskSeed r c)"
| step_generateSecretKeyShares:
    "generateSecretKeyShares P r c = Inr c' \<Longrightarrow> clientStep P (H, c) (H, c')"
| step_generateSelfMaskSeedShares:
    "generateSelfMaskSeedShares P r c = Inr c' \<Longrightarrow> clientStep P (H, c) (H, c')"
| step_computePairwiseEncryption:
    "computePairwiseEncryption P H c = Inr (H', c') \<Longrightarrow> clientStep P (H, c) (H', c')"
| step_generateCiphertexts:
    "generateCiphertexts P ivs H c = Inr c' \<Longrightarrow> clientStep P (H, c) (H, c')"
| step_round1: "round1 P rnd H c = Inr (H', c') \<Longrightarrow> clientStep P (H, c) (H', c')"
| step_receiveCiphertexts:
    "receiveCiphertexts H c cts = Inr (H', c') \<Longrightarrow> clientStep P (H, c) (H', c')"
| step_computeMaskedInputVector:
    "computeMaskedInputVector P r H c = Inr (H', c') \<Longrightarrow> clientStep P (H, c) (H', c')"
| step_round2: "round2 P r H c = Inr (H', c') \<Longrightarrow> clientStep P (H, c) (H', c')"
| step_receiveclientIDsU3:
    "receiveclientIDsU3 H c ids = Inr c' \<Longrightarrow> clientStep P (H, c) (H, c')"
| step_decryptCiphertext: "decryptCiphertext P H c = Inr c' \<Longrightarrow> clientStep P (H, c) (H, c')"
| step_round3: "round3 P H c = Inr c' \<Longrightarrow> clientStep P (H, c) (H, c')"
| step_putDown: "clientStep P (H, c) (H, putDown c)"
| step_store: "clientStep P (H, c) (H', c)"

section \<open>Notions used to state the properties\<close>

text \<open>The senders named by the keys \<^verbatim>\<open>sender|recipient\<close> of a ciphertext bundle.\<close>

definition senders :: "(string \<times> ciphertext) list \<Rightarrow> pid list" where
  "senders cts = map (\<lambda>p. hd (splitOn CHR ''|'' (fst p))) cts"

definition hasCiphertext :: "'k clientMap \<Rightarrow> pid \<Rightarrow> bool" where
  "hasCiphertext obj k = (case map_of obj k of None \<Rightarrow> False | Some e \<Rightarrow> peerCiphertext e \<noteq> None)"

text \<open>\<^verbatim>\<open>entry.client.isUp\<close>, false when the entry has no client.\<close>

definition clientUp :: "'k client list \<Rightarrow> 'k entry \<Rightarrow> bool" where
  "clientUp cs e = (case clientOf cs e of Inl _ \<Rightarrow> False | Inr c \<Rightarrow> isUp c)"

text \<open>
  The rank of a peer in an ordering, counted from 1 (0 when it is not there), as the
  specification words the share indices.
\<close>

fun rankOf :: "pid \<Rightarrow> pid list \<Rightarrow> nat" where
  "rankOf k [] = 0"
| "rankOf k (x # xs) = (if x = k then 1 else if k \<in> set xs then Suc (rankOf k xs) else 0)"

subsection \<open>The terms of the accumulators\<close>

text \<open>The signed mask that the client \<open>me\<close> applies for the key \<open>k\<close> of its U2 list.\<close>

definition pairTerm :: "pid \<Rightarrow> pid \<Rightarrow> int \<Rightarrow> int" where
  "pairTerm me k m = (if k < me then m else if me < k then - m else 0)"









subsection \<open>The accumulators as the specification words them, on 32-bit words\<close>





subsection \<open>The driver, rounds 2 and 3\<close>







subsection \<open>The state after round 1 of an honest run\<close>














section \<open>Concrete inputs\<close>

text \<open>
  A small instance of the libraries for concrete runs: a key pair is a number and
  itself, the shared bits of two keys come from their product, encryption is the
  identity, Shamir share number \<open>i\<close> is the secret followed by the digit \<open>i\<close> (for fewer
  than ten shares) and \<^verbatim>\<open>join\<close> reads the secret back from the first share it is given.
\<close>

definition toyPrims :: "nat prims" where
  "toyPrims =
     \<lparr>subtle_generateKey = (\<lambda>r. (r, r)),
      subtle_exportKey = natToString,
      subtle_importKey = (\<lambda>bs. map_option nat (parseInt bs)),
      subtle_deriveBits = (\<lambda>sk pk. Some [CHR 0x00, char_of (sk * pk div 256), char_of (sk * pk)]),
      subtle_deriveKey = (\<lambda>sk pk. Some (sk * pk)),
      subtle_encrypt = (\<lambda>k iv0 m. Some m),
      subtle_decrypt = (\<lambda>k iv0 ct. Some ct),
      shamir_split = (\<lambda>r n t secret. Some (map (\<lambda>i. (i, secret @ natToString i)) [1..<Suc n])),
      shamir_join = (\<lambda>parts. case parts of [] \<Rightarrow> None
                       | p # _ \<Rightarrow> Some (butlast (map (\<lambda>s. char_of (parseDigits 0 s)) (snd p)))),
      gen_create = (\<lambda>s n. case s of Seed k \<Rightarrow> (k * 7919 + 12345 + int n) mod 2 ^ 32 | SeedNaN \<Rightarrow> 0)\<rparr>"

definition exampleEntropy :: entropy where
  "exampleEntropy = \<lparr>rndSelfMaskSeed = 5, rndKeyShares = 0, rndSeedShares = 0, rndIV = (\<lambda>i. [])\<rparr>"

definition newServer :: "nat \<Rightarrow> ref option \<Rightarrow> 'k server" where
  "newServer t r =
     \<lparr>thresholdS = t, clientListS = r, clientListU2S = None, clientIDsU2S = None,
      clientIDsU3S = None, clientU2NotInU3 = None, agg = None, clientIDsU5 = None,
      keyStocker = None, seedStocker = None, keysRetrieved = None, seedRecovered = None\<rparr>"

text \<open>
  The server's client list for two clients \<^verbatim>\<open>a\<close> and \<^verbatim>\<open>b\<close> that report the same public
  keys, at address 0; and the two clients, both put down.
\<close>

definition serverList :: "nat heap" where
  "serverList =
     [[(''a'', ClientForServer 0 ''a'' (Some 7) (Some 9)),
       (''b'', ClientForServer 1 ''b'' (Some 7) (Some 9))]]"

definition downClients :: "nat client list" where
  "downClients = [putDown (newClient ''a'' 1 2 2), putDown (newClient ''b'' 2 2 2)]"



text \<open>
  Client \<^verbatim>\<open>c\<close> after round 1 with the peers \<^verbatim>\<open>a\<close> and \<^verbatim>\<open>b\<close>, and a bundle in which only
  \<^verbatim>\<open>a\<close> sent a ciphertext; the server's clients \<^verbatim>\<open>a\<close> (up) and \<^verbatim>\<open>b\<close> (down).
\<close>

definition clientC :: "nat client" where
  "clientC = (newClient ''c'' 1 3 2)\<lparr>clientList := Some 0\<rparr>"

definition heapC :: "nat heap" where
  "heapC =
     [[(''a'', ClientForClient ''a'' (Some 7) 5 9 (getPRNGFromSeed 5)),
       (''b'', ClientForClient ''b'' (Some 8) 6 10 (getPRNGFromSeed 6))]]"

definition bundleC :: "(string \<times> ciphertext) list" where
  "bundleC = [(''a|c'', \<lparr>ciphertextBytes = ''x'', iv = ''y''\<rparr>)]"

definition heapC2 :: "nat heap" where
  "heapC2 =
     [[(''a'', (ClientForClient ''a'' (Some 7) 5 9 (getPRNGFromSeed 5))
                 \<lparr>peerCiphertext := Some \<lparr>ciphertextBytes = ''x'', iv = ''y''\<rparr>\<rparr>)]]"

definition serverList2 :: "nat heap" where
  "serverList2 = [[(''a'', ClientForServer 0 ''a'' (Some 7) (Some 9))]]"

definition oneDownClients :: "nat client list" where
  "oneDownClients = [newClient ''a'' 1 2 1, putDown (newClient ''b'' 2 2 1)]"

text \<open>
  The broadcast of three clients \<^verbatim>\<open>a\<close>, \<^verbatim>\<open>b\<close>, \<^verbatim>\<open>c\<close> at address 0, client \<^verbatim>\<open>b\<close> before its
  round 1, and the peer list and the client that round 1 produces.
\<close>

definition heapABC :: "nat heap" where
  "heapABC =
     [[(''a'', ClientForServer 0 ''a'' (Some 1) (Some 11)),
       (''b'', ClientForServer 1 ''b'' (Some 2) (Some 12)),
       (''c'', ClientForServer 2 ''c'' (Some 3) (Some 13))]]"

definition clientB0 :: "nat client" where
  "clientB0 =
     (newClient ''b'' 1 3 2)\<lparr>seedPrivateKey := Some 2, seedPublicKey := Some 2,
       encryptionPrivateKey := Some 12, encryptionPublicKey := Some 12, clientList := Some 0\<rparr>"

definition listB :: "nat clientMap" where
  "listB =
     [(''a'', ClientForClient ''a'' (Some 1) 2 132 (getPRNGFromSeed 2)),
      (''c'', ClientForClient ''c'' (Some 3) 6 156 (getPRNGFromSeed 6))]"

definition clientB1 :: "nat client" where
  "clientB1 =
     clientB0\<lparr>clientList := Some 1, selfMaskSeed := Some 5,
       secretKeyShamir := Some [(1, ''21''), (2, ''22''), (3, ''23'')],
       selfMaskSeedShamir := Some [(1, ''51''), (2, ''52''), (3, ''53'')],
       ownPrivateKeyShare := Some ''23'', ownSelfMaskSeedShare := Some ''53'',
       ownIndex := Some 3,
       ciphertexts := Some [(''b|a'', \<lparr>ciphertextBytes = ''b|a|50,49|53,49|1'', iv = []\<rparr>),
                            (''b|c'', \<lparr>ciphertextBytes = ''b|c|50,50|53,50|2'', iv = []\<rparr>)]\<rparr>"

text \<open>
  Three clients \<^verbatim>\<open>a\<close>, \<^verbatim>\<open>b\<close>, \<^verbatim>\<open>c\<close> with threshold 2 and the secrets \<open>sa\<close>, \<open>sb\<close>, \<open>sc\<close>: each runs
  round 1 on the broadcast at address 0 and then receives the two ciphertexts meant for
  it. \<open>worldHeap\<close> and \<open>worldClients\<close> are the store and the clients that this gives, and
  \<open>serverR1\<close> is the server after its round 1.
\<close>

definition exampleClient :: "pid \<Rightarrow> rat \<Rightarrow> nat \<Rightarrow> nat \<Rightarrow> nat client" where
  "exampleClient i v sk ek =
     (newClient i v 3 2)\<lparr>seedPrivateKey := Some sk, seedPublicKey := Some sk,
       encryptionPrivateKey := Some ek, encryptionPublicKey := Some ek, clientList := Some 0\<rparr>"

definition entropyOf :: "int \<Rightarrow> entropy" where
  "entropyOf s = \<lparr>rndSelfMaskSeed = s, rndKeyShares = 0, rndSeedShares = 0, rndIV = (\<lambda>i. [])\<rparr>"

definition pick :: "string \<Rightarrow> (string \<times> ciphertext) list option \<Rightarrow> (string \<times> ciphertext) list" where
  "pick k cts =
     (case cts of None \<Rightarrow> []
      | Some xs \<Rightarrow> (case map_of xs k of None \<Rightarrow> [] | Some ct \<Rightarrow> [(k, ct)]))"

definition afterRound1 :: "rat \<Rightarrow> rat \<Rightarrow> rat \<Rightarrow> error + (nat heap \<times> nat client list)" where
  "afterRound1 sa sb sc =
     bindE (round1 toyPrims (entropyOf 5) heapABC (exampleClient ''a'' sa 1 11)) (\<lambda>(H1, a1).
     bindE (round1 toyPrims (entropyOf 6) H1 (exampleClient ''b'' sb 2 12)) (\<lambda>(H2, b1).
     bindE (round1 toyPrims (entropyOf 7) H2 (exampleClient ''c'' sc 3 13)) (\<lambda>(H3, c1).
     bindE (receiveCiphertexts H3 a1 (pick ''b|a'' (ciphertexts b1) @ pick ''c|a'' (ciphertexts c1)))
       (\<lambda>(H4, a2).
     bindE (receiveCiphertexts H4 b1 (pick ''a|b'' (ciphertexts a1) @ pick ''c|b'' (ciphertexts c1)))
       (\<lambda>(H5, b2).
     bindE (receiveCiphertexts H5 c1 (pick ''a|c'' (ciphertexts a1) @ pick ''b|c'' (ciphertexts b1)))
       (\<lambda>(H6, c2).
       Inr (H6, [a2, b2, c2])))))))"

definition viewOf :: "pid \<Rightarrow> nat \<Rightarrow> int \<Rightarrow> nat \<Rightarrow> string \<Rightarrow> nat entry" where
  "viewOf k pk s aes ct =
     (ClientForClient k (Some pk) s aes (getPRNGFromSeed s))
       \<lparr>peerCiphertext := Some \<lparr>ciphertextBytes = ct, iv = []\<rparr>\<rparr>"

definition worldHeap :: "nat heap" where
  "worldHeap =
     [[(''a'', ClientForServer 0 ''a'' (Some 1) (Some 11)),
       (''b'', ClientForServer 1 ''b'' (Some 2) (Some 12)),
       (''c'', ClientForServer 2 ''c'' (Some 3) (Some 13))],
      [(''b'', viewOf ''b'' 2 2 132 ''b|a|50,49|54,49|1''),
       (''c'', viewOf ''c'' 3 3 143 ''c|a|51,49|55,49|1'')],
      [(''a'', viewOf ''a'' 1 2 132 ''a|b|49,49|53,49|1''),
       (''c'', viewOf ''c'' 3 6 156 ''c|b|51,50|55,50|2'')],
      [(''a'', viewOf ''a'' 1 3 143 ''a|c|49,50|53,50|2''),
       (''b'', viewOf ''b'' 2 6 156 ''b|c|50,50|54,50|2'')]]"

definition worldClientA :: "rat \<Rightarrow> nat client" where
  "worldClientA sa =
     (exampleClient ''a'' sa 1 11)\<lparr>clientList := Some 1, selfMaskSeed := Some 5,
       secretKeyShamir := Some [(1, ''11''), (2, ''12''), (3, ''13'')],
       selfMaskSeedShamir := Some [(1, ''51''), (2, ''52''), (3, ''53'')],
       ownPrivateKeyShare := Some ''13'', ownSelfMaskSeedShare := Some ''53'',
       ownIndex := Some 3,
       ciphertexts := Some [(''a|b'', \<lparr>ciphertextBytes = ''a|b|49,49|53,49|1'', iv = []\<rparr>),
                            (''a|c'', \<lparr>ciphertextBytes = ''a|c|49,50|53,50|2'', iv = []\<rparr>)],
       clientListU2 := Some 1\<rparr>"

definition worldClientB :: "rat \<Rightarrow> nat client" where
  "worldClientB sb =
     (exampleClient ''b'' sb 2 12)\<lparr>clientList := Some 2, selfMaskSeed := Some 6,
       secretKeyShamir := Some [(1, ''21''), (2, ''22''), (3, ''23'')],
       selfMaskSeedShamir := Some [(1, ''61''), (2, ''62''), (3, ''63'')],
       ownPrivateKeyShare := Some ''23'', ownSelfMaskSeedShare := Some ''63'',
       ownIndex := Some 3,
       ciphertexts := Some [(''b|a'', \<lparr>ciphertextBytes = ''b|a|50,49|54,49|1'', iv = []\<rparr>),
                            (''b|c'', \<lparr>ciphertextBytes = ''b|c|50,50|54,50|2'', iv = []\<rparr>)],
       clientListU2 := Some 2\<rparr>"

definition worldClientC :: "rat \<Rightarrow> nat client" where
  "worldClientC sc =
     (exampleClient ''c'' sc 3 13)\<lparr>clientList := Some 3, selfMaskSeed := Some 7,
       secretKeyShamir := Some [(1, ''31''), (2, ''32''), (3, ''33'')],
       selfMaskSeedShamir := Some [(1, ''71''), (2, ''72''), (3, ''73'')],
       ownPrivateKeyShare := Some ''33'', ownSelfMaskSeedShare := Some ''73'',
       ownIndex := Some 3,
       ciphertexts := Some [(''c|a'', \<lparr>ciphertextBytes = ''c|a|51,49|55,49|1'', iv = []\<rparr>),
                            (''c|b'', \<lparr>ciphertextBytes = ''c|b|51,50|55,50|2'', iv = []\<rparr>)],
       clientListU2 := Some 3\<rparr>"

definition worldClients :: "rat \<Rightarrow> rat \<Rightarrow> rat \<Rightarrow> nat client list" where
  "worldClients sa sb sc = [worldClientA sa, worldClientB sb, worldClientC sc]"

definition serverR1 :: "nat server" where
  "serverR1 = (newServer 2 (Some 0))\<lparr>clientListU2S := Some 0\<rparr>"





section \<open>Properties\<close>

declare collisionInner.simps [simp del] collisionOuter.simps [simp del]
declare natToString.simps [simp del] bitLength.simps [simp del] decimalLength.simps [simp del]

lemma bindE_simps [simp]: "bindE (Inl e) f = Inl e" "bindE (Inr x) f = f x"
  by (simp_all add: bindE_def)

lemma orThrow_simps [simp]: "orThrow e None = Inl e" "orThrow e (Some x) = Inr x"
  by (simp_all add: orThrow_def)

lemma bindE_eq_Inr: "bindE m f = Inr y \<longleftrightarrow> (\<exists>x. m = Inr x \<and> f x = Inr y)"
  by (cases m) simp_all

lemma bindE_eq_Inl: "bindE m f = Inl e \<longleftrightarrow> m = Inl e \<or> (\<exists>x. m = Inr x \<and> f x = Inl e)"
  by (cases m) simp_all

lemma orThrow_eq_Inr: "orThrow e v = Inr x \<longleftrightarrow> v = Some x"
  by (cases v) simp_all

lemma orThrow_eq_Inl: "orThrow e v = Inl e' \<longleftrightarrow> v = None \<and> e' = e"
  by (cases v) auto

lemma readEntry_error: "readEntry H v k = Inl e \<Longrightarrow> e = TypeError"
  by (auto simp: readEntry_def split: option.splits)

lemma deleteKey_error: "deleteKey H v k = Inl e \<Longrightarrow> e = TypeError"
  by (auto simp: deleteKey_def split: option.splits if_splits)

lemma clientOf_error: "clientOf cs e = Inl err \<Longrightarrow> err = TypeError"
  by (auto simp: clientOf_def bindE_eq_Inl orThrow_eq_Inl)

subsection \<open>The property \<^verbatim>\<open>length\<close> of a plain object\<close>

lemma js_lt_getProp_left [simp]: "\<not> js_lt (getProp obj k) v"
  by (cases "getProp obj k") (simp_all add: getProp_def split: option.splits)

lemma js_lt_getProp_right [simp]: "\<not> js_lt v (getProp obj k)"
  by (cases v; cases "getProp obj k") (simp_all add: getProp_def split: option.splits)

lemma collisionOuter_False [simp]: "collisionOuter obj i = Inr False"
  by (subst collisionOuter.simps) simp

text \<open>On a client list in the store \<^verbatim>\<open>receiveClients\<close> runs neither check and records it.\<close>

lemma receiveClients_records:
  "deref H r = Some obj \<Longrightarrow> receiveClients H c r = Inr (c\<lparr>clientList := Some r\<rparr>)"
  by (simp add: receiveClients_def)

lemma deleteDown_error: "deleteDown cs H v vU2 ks = Inl e \<Longrightarrow> e = TypeError"
proof (induction ks arbitrary: H)
  case Nil
  then show ?case by simp
next
  case (Cons k ks)
  then show ?case
    by (auto simp: bindE_eq_Inl orThrow_eq_Inl split: if_splits
             dest: readEntry_error deleteKey_error clientOf_error)
qed

text \<open>\<^verbatim>\<open>computeU2\<close> never raises the threshold error, whatever the clients and the store.\<close>

lemma computeU2_never_BelowThreshold: "computeU2 cs H S \<noteq> Inl BelowThreshold"
  by (auto simp: computeU2_def Let_def bindE_eq_Inl orThrow_eq_Inl dest: deleteDown_error)






text \<open>
  C5. \<^verbatim>\<open>computeU2\<close> with threshold 2 and both clients down: U2 is empty, the test on
  \<^verbatim>\<open>this.clientListU2.length\<close> is false and the call returns with the emptied list.
\<close>

theorem computeU2_empty_U2_returns:
  "computeU2 downClients serverList (newServer 2 (Some 0))
     = Inr ([[]], (newServer 2 (Some 0))\<lparr>clientListU2S := Some 0\<rparr>)"
  by (simp add: computeU2_def downClients_def serverList_def newServer_def forInKeys_def
        deref_def readEntry_def clientOf_def nthOpt_def ClientForServer_def putDown_def
        newClient_def deleteKey_def getProp_def)

text \<open>
  C6. \<^verbatim>\<open>receiveClients\<close> with threshold 3 on the server's list of two clients that report
  the same public keys: fewer entries than the threshold and a key collision, and the
  call returns and records the list.
\<close>

theorem receiveClients_accepts_short_colliding_list:
  "receiveClients serverList (newClient ''a'' 1 3 3) 0
     = Inr ((newClient ''a'' 1 3 3)\<lparr>clientList := Some 0\<rparr>)"
  by (simp add: receiveClients_def serverList_def deref_def)

subsection \<open>A client that is down\<close>

lemma isUp_generateKeyPairs: "isUp (generateKeyPairs P r1 r2 c) = isUp c"
  by (simp add: generateKeyPairs_def Let_def)

lemma isUp_receiveClients: "receiveClients H c r = Inr c' \<Longrightarrow> isUp c' = isUp c"
  by (auto simp: receiveClients_def bindE_eq_Inr orThrow_eq_Inr split: if_splits option.splits)

lemma isUp_generateSecretKeyShares: "generateSecretKeyShares P r c = Inr c' \<Longrightarrow> isUp c' = isUp c"
  by (auto simp: generateSecretKeyShares_def bindE_eq_Inr)

lemma isUp_generateSelfMaskSeedShares:
  "generateSelfMaskSeedShares P r c = Inr c' \<Longrightarrow> isUp c' = isUp c"
  by (auto simp: generateSelfMaskSeedShares_def Let_def bindE_eq_Inr)

lemma isUp_computePairwiseEncryption:
  "computePairwiseEncryption P H c = Inr (H', c') \<Longrightarrow> isUp c' = isUp c"
  by (auto simp: computePairwiseEncryption_def Let_def bindE_eq_Inr)

lemma isUp_generateCiphertexts: "generateCiphertexts P ivs H c = Inr c' \<Longrightarrow> isUp c' = isUp c"
  by (auto simp: generateCiphertexts_def bindE_eq_Inr)

lemma round1_down: "\<not> isUp c \<Longrightarrow> round1 P rnd H c = Inr (H, c)"
  by (simp add: round1_def)

lemma round2_down: "\<not> isUp c \<Longrightarrow> round2 P r H c = Inr (H, c)"
  by (simp add: round2_def)

lemma round3_down: "\<not> isUp c \<Longrightarrow> round3 P H c = Inr c"
  by (simp add: round3_def)

lemma isUp_receiveCiphertexts: "receiveCiphertexts H c cts = Inr (H', c') \<Longrightarrow> isUp c' = isUp c"
  by (auto simp: receiveCiphertexts_def Let_def bindE_eq_Inr split: if_splits)

lemma isUp_computeMaskedInputVector:
  "computeMaskedInputVector P r H c = Inr (H', c') \<Longrightarrow> isUp c' = isUp c"
  by (auto simp: computeMaskedInputVector_def Let_def bindE_eq_Inr)

lemma isUp_receiveclientIDsU3: "receiveclientIDsU3 H c ids = Inr c' \<Longrightarrow> isUp c' = isUp c"
  by (auto simp: receiveclientIDsU3_def Let_def bindE_eq_Inr split: if_splits)

lemma isUp_decryptCiphertext: "decryptCiphertext P H c = Inr c' \<Longrightarrow> isUp c' = isUp c"
  by (auto simp: decryptCiphertext_def bindE_eq_Inr)

lemma clientStep_down:
  assumes "clientStep P s s'" and "\<not> isUp (snd s)"
  shows "\<not> isUp (snd s')"
  using assms
proof (induction rule: clientStep.induct)
  case (step_round1 rnd H c H' c')
  then show ?case by (simp add: round1_down)
next
  case (step_round2 r H c H' c')
  then show ?case by (simp add: round2_down)
next
  case (step_round3 H c c')
  then show ?case by (simp add: round3_down)
qed (auto simp: isUp_generateKeyPairs round0_def generateSelfMaskSeed_def putDown_def
       dest: isUp_receiveClients isUp_generateSecretKeyShares isUp_generateSelfMaskSeedShares
             isUp_computePairwiseEncryption isUp_generateCiphertexts isUp_receiveCiphertexts
             isUp_computeMaskedInputVector isUp_receiveclientIDsU3 isUp_decryptCiphertext)

lemma clientSteps_down:
  assumes "(clientStep P)\<^sup>*\<^sup>* s s'" and "\<not> isUp (snd s)"
  shows "\<not> isUp (snd s')"
  using assms by (induction rule: rtranclp_induct) (auto dest: clientStep_down)

text \<open>
  C9. After \<^verbatim>\<open>putDown()\<close> the client is down; it is still down after any sequence of
  calls of its methods that follows; and on a client that is down \<^verbatim>\<open>round1()\<close>,
  \<^verbatim>\<open>round2()\<close> and \<^verbatim>\<open>round3()\<close> return with the client and the store as they were.
\<close>

theorem putDown_final:
  "\<not> isUp (putDown c)
   \<and> ((clientStep P)\<^sup>*\<^sup>* (H, putDown c) (H', c') \<longrightarrow> \<not> isUp c')
   \<and> (\<not> isUp d \<longrightarrow>
        round1 P rnd H d = Inr (H, d) \<and> round2 P r H d = Inr (H, d) \<and> round3 P H d = Inr d)"
  using clientSteps_down [of P "(H, putDown c)" "(H', c')"]
  by (simp add: putDown_def round1_down round2_down round3_down)

theorem putDown_final_witness:
  "\<not> isUp (putDown (newClient ''a'' 1 2 2 :: nat client))
   \<and> \<not> isUp (round0 toyPrims 3 4 (putDown (newClient ''a'' 1 2 2)))
   \<and> round1 toyPrims exampleEntropy [] (round0 toyPrims 3 4 (putDown (newClient ''a'' 1 2 2)))
       = Inr ([], round0 toyPrims 3 4 (putDown (newClient ''a'' 1 2 2)))"
proof -
  let ?c = "newClient ''a'' 1 2 2 :: nat client"
  let ?d = "round0 toyPrims 3 4 (putDown ?c)"
  have step: "(clientStep toyPrims)\<^sup>*\<^sup>* ([], putDown ?c) ([], ?d)"
    by (rule r_into_rtranclp) (rule step_round0)
  have down: "\<not> isUp ?d"
    using putDown_final [of ?c toyPrims "[]" "[]" ?d] step by simp
  show ?thesis
    using putDown_final [of ?c toyPrims "[]" "[]" ?d ?d exampleEntropy 0] step down by simp
qed

subsection \<open>The U2 list and the U1 list are one object\<close>

lemma map_fst_update_existing:
  "map_of obj k = Some e \<Longrightarrow> map fst (AList.update k e' obj) = map fst obj"
  by (induction obj) (auto split: if_splits)

lemma storeCiphertexts_keys:
  assumes "storeCiphertexts H (Some r) cts n = Inr (H1, m)" and "r < length H"
  shows "length H1 = length H \<and> map fst (H1 ! r) = map fst (H ! r)
         \<and> (\<forall>k. hasCiphertext (H1 ! r) k \<longleftrightarrow> hasCiphertext (H ! r) k \<or> (k \<in> set (senders cts) \<and> k \<in> fst ` set (H ! r)))"
  using assms
proof (induction cts arbitrary: H n)
  case Nil
  then show ?case by (simp add: senders_def)
next
  case (Cons p cts)
  obtain key ct where p: "p = (key, ct)" by (cases p)
  let ?k = "hd (splitOn CHR ''|'' key)"
  from Cons.prems p obtain e where e: "map_of (H ! r) ?k = Some e"
    and rest: "storeCiphertexts (writeEntry H r ?k (e\<lparr>peerCiphertext := Some ct\<rparr>)) (Some r) cts (n + 1) = Inr (H1, m)"
    by (auto simp: Let_def bindE_eq_Inr orThrow_eq_Inr readEntry_def deref_def split: if_splits)
  let ?H = "writeEntry H r ?k (e\<lparr>peerCiphertext := Some ct\<rparr>)"
  have len: "length ?H = length H" by (simp add: writeEntry_def)
  have obj: "?H ! r = AList.update ?k (e\<lparr>peerCiphertext := Some ct\<rparr>) (H ! r)"
    using Cons.prems(2) by (simp add: writeEntry_def)
  have keys: "map fst (?H ! r) = map fst (H ! r)"
    using e by (simp add: obj map_fst_update_existing)
  have kin: "?k \<in> fst ` set (H ! r)"
    using e by (metis map_of_eq_None_iff option.distinct(1))
  have hc: "hasCiphertext (?H ! r) k \<longleftrightarrow> hasCiphertext (H ! r) k \<or> k = ?k" for k
    using e by (auto simp: obj hasCiphertext_def update_conv' split: option.splits)
  from Cons.IH [OF rest] len Cons.prems(2)
  have IH: "length H1 = length H" "map fst (H1 ! r) = map fst (?H ! r)"
    "\<And>k. hasCiphertext (H1 ! r) k \<longleftrightarrow> hasCiphertext (?H ! r) k \<or> (k \<in> set (senders cts) \<and> k \<in> fst ` set (?H ! r))"
    by simp_all
  have fstset: "fst ` set (?H ! r) = fst ` set (H ! r)"
    using keys by (metis set_map)
  show ?case
    using IH keys hc kin fstset by (auto simp: senders_def p)
qed

lemma distinct_map_of_unique:
  "distinct (map fst obj) \<Longrightarrow> map_of obj k = Some e \<Longrightarrow> (k, e') \<in> set obj \<Longrightarrow> e' = e"
  by (metis map_of_is_SomeI option.inject)

lemma delete_as_filter: "AList.delete k obj = filter (\<lambda>p. fst p \<noteq> k) obj"
  by (induction obj) auto

lemma deleteWithoutCiphertext_filter:
  assumes "deleteWithoutCiphertext H (Some r) (Some r) ks = Inr H'"
    and "r < length H" and "distinct ks" and "distinct (map fst (H ! r))"
  shows "H' = H[r := filter (\<lambda>p. fst p \<in> set ks \<longrightarrow> peerCiphertext (snd p) \<noteq> None) (H ! r)]"
  using assms
proof (induction ks arbitrary: H)
  case Nil
  then show ?case by simp
next
  case (Cons k ks)
  from Cons.prems obtain e where e: "map_of (H ! r) k = Some e"
    by (auto simp: bindE_eq_Inr orThrow_eq_Inr readEntry_def deref_def split: if_splits)
  have uniq: "snd p = e" if "p \<in> set (H ! r)" "fst p = k" for p
    using that e Cons.prems(4) by (metis distinct_map_of_unique prod.collapse)
  have notin: "k \<notin> set ks" using Cons.prems(3) by simp
  show ?case
  proof (cases "peerCiphertext e = None")
    case True
    let ?H = "H[r := AList.delete k (H ! r)]"
    from Cons.prems e True have rest: "deleteWithoutCiphertext ?H (Some r) (Some r) ks = Inr H'"
      by (auto simp: bindE_eq_Inr orThrow_eq_Inr readEntry_def deref_def deleteKey_def)
    have d: "distinct (map fst (?H ! r))"
      using Cons.prems by (simp add: distinct_delete)
    from Cons.IH [OF rest] Cons.prems d
    have "H' = ?H[r := filter (\<lambda>p. fst p \<in> set ks \<longrightarrow> peerCiphertext (snd p) \<noteq> None) (?H ! r)]"
      by simp
    moreover have "filter (\<lambda>p. fst p \<in> set ks \<longrightarrow> peerCiphertext (snd p) \<noteq> None) (AList.delete k (H ! r))
        = filter (\<lambda>p. fst p \<in> set (k # ks) \<longrightarrow> peerCiphertext (snd p) \<noteq> None) (H ! r)"
      unfolding delete_as_filter filter_filter
    proof (rule filter_cong [OF refl])
      fix p assume "p \<in> set (H ! r)"
      then show "(fst p \<noteq> k \<and> (fst p \<in> set ks \<longrightarrow> peerCiphertext (snd p) \<noteq> None))
           = (fst p \<in> set (k # ks) \<longrightarrow> peerCiphertext (snd p) \<noteq> None)"
        using uniq [of p] True by (cases "fst p = k") simp_all
    qed
    ultimately show ?thesis using Cons.prems(2) by simp
  next
    case False
    from Cons.prems e False have rest: "deleteWithoutCiphertext H (Some r) (Some r) ks = Inr H'"
      by (auto simp: bindE_eq_Inr orThrow_eq_Inr readEntry_def deref_def)
    from Cons.IH [OF rest] Cons.prems
    have "H' = H[r := filter (\<lambda>p. fst p \<in> set ks \<longrightarrow> peerCiphertext (snd p) \<noteq> None) (H ! r)]"
      by simp
    moreover have "filter (\<lambda>p. fst p \<in> set ks \<longrightarrow> peerCiphertext (snd p) \<noteq> None) (H ! r)
        = filter (\<lambda>p. fst p \<in> set (k # ks) \<longrightarrow> peerCiphertext (snd p) \<noteq> None) (H ! r)"
    proof (rule filter_cong [OF refl])
      fix p assume "p \<in> set (H ! r)"
      then show "(fst p \<in> set ks \<longrightarrow> peerCiphertext (snd p) \<noteq> None)
           = (fst p \<in> set (k # ks) \<longrightarrow> peerCiphertext (snd p) \<noteq> None)"
        using uniq [of p] False by (cases "fst p = k") simp_all
    qed
    ultimately show ?thesis by simp
  qed
qed


lemma deleteDown_filter:
  assumes "deleteDown cs H (Some r) (Some r) ks = Inr H'"
    and "r < length H" and "distinct ks" and "distinct (map fst (H ! r))"
  shows "H' = H[r := filter (\<lambda>p. fst p \<in> set ks \<longrightarrow> clientUp cs (snd p)) (H ! r)]"
  using assms
proof (induction ks arbitrary: H)
  case Nil
  then show ?case by simp
next
  case (Cons k ks)
  from Cons.prems obtain e c where e: "map_of (H ! r) k = Some e" and c: "clientOf cs e = Inr c"
    by (auto simp: bindE_eq_Inr orThrow_eq_Inr readEntry_def deref_def split: if_splits)
  have uniq: "snd p = e" if "p \<in> set (H ! r)" "fst p = k" for p
    using that e Cons.prems(4) by (metis distinct_map_of_unique prod.collapse)
  have up: "clientUp cs e = isUp c" using c by (simp add: clientUp_def)
  show ?case
  proof (cases "isUp c")
    case False
    let ?H = "H[r := AList.delete k (H ! r)]"
    from Cons.prems e c False have rest: "deleteDown cs ?H (Some r) (Some r) ks = Inr H'"
      by (auto simp: bindE_eq_Inr orThrow_eq_Inr readEntry_def deref_def deleteKey_def)
    have d: "distinct (map fst (?H ! r))"
      using Cons.prems by (simp add: distinct_delete)
    from Cons.IH [OF rest] Cons.prems d
    have "H' = ?H[r := filter (\<lambda>p. fst p \<in> set ks \<longrightarrow> clientUp cs (snd p)) (?H ! r)]"
      by simp
    moreover have "filter (\<lambda>p. fst p \<in> set ks \<longrightarrow> clientUp cs (snd p)) (AList.delete k (H ! r))
        = filter (\<lambda>p. fst p \<in> set (k # ks) \<longrightarrow> clientUp cs (snd p)) (H ! r)"
      unfolding delete_as_filter filter_filter
    proof (rule filter_cong [OF refl])
      fix p assume "p \<in> set (H ! r)"
      then show "(fst p \<noteq> k \<and> (fst p \<in> set ks \<longrightarrow> clientUp cs (snd p)))
           = (fst p \<in> set (k # ks) \<longrightarrow> clientUp cs (snd p))"
        using uniq [of p] False up by (cases "fst p = k") simp_all
    qed
    ultimately show ?thesis using Cons.prems(2) by simp
  next
    case True
    from Cons.prems e c True have rest: "deleteDown cs H (Some r) (Some r) ks = Inr H'"
      by (auto simp: bindE_eq_Inr orThrow_eq_Inr readEntry_def deref_def)
    from Cons.IH [OF rest] Cons.prems
    have "H' = H[r := filter (\<lambda>p. fst p \<in> set ks \<longrightarrow> clientUp cs (snd p)) (H ! r)]"
      by simp
    moreover have "filter (\<lambda>p. fst p \<in> set ks \<longrightarrow> clientUp cs (snd p)) (H ! r)
        = filter (\<lambda>p. fst p \<in> set (k # ks) \<longrightarrow> clientUp cs (snd p)) (H ! r)"
    proof (rule filter_cong [OF refl])
      fix p assume "p \<in> set (H ! r)"
      then show "(fst p \<in> set ks \<longrightarrow> clientUp cs (snd p))
           = (fst p \<in> set (k # ks) \<longrightarrow> clientUp cs (snd p))"
        using uniq [of p] True up by (cases "fst p = k") simp_all
    qed
    ultimately show ?thesis by simp
  qed
qed

lemma filter_all_keys:
  "filter (\<lambda>p. fst p \<in> set (map fst obj) \<longrightarrow> Q p) obj = filter Q obj"
  by (rule filter_cong [OF refl]) auto

lemma keys_of_filter:
  "distinct (map fst obj) \<Longrightarrow>
   map fst (filter (\<lambda>p. Q (snd p)) obj)
     = filter (\<lambda>k. case map_of obj k of None \<Rightarrow> False | Some e \<Rightarrow> Q e) (map fst obj)"
proof (induction obj)
  case Nil
  then show ?case by simp
next
  case (Cons x obj)
  have "filter (\<lambda>k. case map_of (x # obj) k of None \<Rightarrow> False | Some e \<Rightarrow> Q e) (map fst obj)
      = filter (\<lambda>k. case map_of obj k of None \<Rightarrow> False | Some e \<Rightarrow> Q e) (map fst obj)"
    using Cons.prems by (intro filter_cong [OF refl]) (cases x, auto)
  then show ?case using Cons by (cases x) simp
qed

lemma receiveCiphertexts_alias:
  assumes "receiveCiphertexts H c cts = Inr (H', c')"
    and "clientList c = Some r" and "deref H r = Some obj" and "distinct (map fst obj)"
  shows "clientListU2 c' = Some r \<and> clientList c' = Some r
         \<and> forInKeys H' (clientList c')
             = filter (\<lambda>k. hasCiphertext obj k \<or> k \<in> set (senders cts)) (map fst obj)"
proof -
  have r: "r < length H" and obj: "H ! r = obj"
    using assms(3) by (auto simp: deref_def split: if_splits)
  from assms(1,2) obtain H1 n where
    st: "storeCiphertexts H (Some r) cts 0 = Inr (H1, n)"
    and del: "deleteWithoutCiphertext H1 (Some r) (Some r) (forInKeys H1 (Some r)) = Inr H'"
    and c': "c' = c\<lparr>clientListU2 := Some r\<rparr>"
    by (auto simp: receiveCiphertexts_def Let_def bindE_eq_Inr split: if_splits)
  from storeCiphertexts_keys [OF st r] obj
  have len: "length H1 = length H" and keys: "map fst (H1 ! r) = map fst obj"
    and hc: "\<And>k. hasCiphertext (H1 ! r) k \<longleftrightarrow> hasCiphertext obj k \<or> (k \<in> set (senders cts) \<and> k \<in> fst ` set obj)"
    by simp_all
  have r1: "r < length H1" using r len by simp
  have fk: "forInKeys H1 (Some r) = map fst (H1 ! r)"
    using r1 by (simp add: forInKeys_def deref_def)
  have d1: "distinct (map fst (H1 ! r))" using keys assms(4) by simp
  from deleteWithoutCiphertext_filter [OF del [unfolded fk] r1 d1 d1]
  have H': "H' = H1[r := filter (\<lambda>p. peerCiphertext (snd p) \<noteq> None) (H1 ! r)]"
    by (simp only: filter_all_keys)
  have "forInKeys H' (Some r) = map fst (filter (\<lambda>p. peerCiphertext (snd p) \<noteq> None) (H1 ! r))"
    using r1 by (simp add: H' forInKeys_def deref_def)
  also have "\<dots> = filter (\<lambda>k. hasCiphertext (H1 ! r) k) (map fst (H1 ! r))"
    using keys_of_filter [OF d1, of "\<lambda>e. peerCiphertext e \<noteq> None"]
    by (simp add: hasCiphertext_def)
  also have "\<dots> = filter (\<lambda>k. hasCiphertext obj k \<or> k \<in> set (senders cts)) (map fst obj)"
    unfolding keys by (rule filter_cong [OF refl]) (auto simp: hc)
  finally show ?thesis using c' assms(2) by simp
qed

lemma computeU2_alias:
  assumes "computeU2 cs H S = Inr (H', S')"
    and "clientListS S = Some r" and "deref H r = Some obj" and "distinct (map fst obj)"
  shows "clientListU2S S' = Some r \<and> clientListS S' = Some r
         \<and> deref H' r = Some (filter (\<lambda>p. clientUp cs (snd p)) obj)"
proof -
  have r: "r < length H" and obj: "H ! r = obj"
    using assms(3) by (auto simp: deref_def split: if_splits)
  have fk: "forInKeys H (Some r) = map fst obj"
    using assms(3) by (simp add: forInKeys_def)
  from assms(1,2) have del: "deleteDown cs H (Some r) (Some r) (map fst obj) = Inr H'"
    and S': "S' = S\<lparr>clientListU2S := Some r\<rparr>"
    by (auto simp: computeU2_def Let_def bindE_eq_Inr fk split: if_splits)
  have d: "distinct (map fst (H ! r))" using obj assms(4) by simp
  from deleteDown_filter [OF del r assms(4) d] obj
  have "H' = H[r := filter (\<lambda>p. clientUp cs (snd p)) obj]"
    by (simp only: filter_all_keys)
  then show ?thesis using S' assms(2) r by (simp add: deref_def)
qed

text \<open>
  C10. In \<^verbatim>\<open>receiveCiphertexts\<close> and in \<^verbatim>\<open>computeU2\<close> the U2 variable holds the address of
  the U1 list. When the call returns, both variables name the same object; on the
  client its keys are the former keys that have a ciphertext (one stored before, or
  one of the bundle's senders), on the server its entries are the former entries
  whose client is up. So every peer left out of U2 is gone from the recorded U1 too.
\<close>

theorem U2_is_U1_object:
  "(receiveCiphertexts H c cts = Inr (H', c') \<and> clientList c = Some r \<and> deref H r = Some obj
      \<and> distinct (map fst obj)
    \<longrightarrow> clientListU2 c' = clientList c' \<and> clientList c' = Some r
        \<and> forInKeys H' (clientList c')
            = filter (\<lambda>k. hasCiphertext obj k \<or> k \<in> set (senders cts)) (map fst obj))
   \<and> (computeU2 cs G S = Inr (G', S') \<and> clientListS S = Some q \<and> deref G q = Some objS
      \<and> distinct (map fst objS)
    \<longrightarrow> clientListU2S S' = clientListS S' \<and> clientListS S' = Some q
        \<and> deref G' q = Some (filter (\<lambda>p. clientUp cs (snd p)) objS))"
proof (intro conjI impI)
  assume a: "receiveCiphertexts H c cts = Inr (H', c') \<and> clientList c = Some r
     \<and> deref H r = Some obj \<and> distinct (map fst obj)"
  then have *: "clientListU2 c' = Some r \<and> clientList c' = Some r
         \<and> forInKeys H' (clientList c')
             = filter (\<lambda>k. hasCiphertext obj k \<or> k \<in> set (senders cts)) (map fst obj)"
    using receiveCiphertexts_alias [of H c cts H' c' r obj] by blast
  from * show "clientListU2 c' = clientList c'" by simp
  from * show "clientList c' = Some r" by simp
  from * show "forInKeys H' (clientList c')
      = filter (\<lambda>k. hasCiphertext obj k \<or> k \<in> set (senders cts)) (map fst obj)" by blast
next
  assume a: "computeU2 cs G S = Inr (G', S') \<and> clientListS S = Some q \<and> deref G q = Some objS
      \<and> distinct (map fst objS)"
  then have *: "clientListU2S S' = Some q \<and> clientListS S' = Some q
         \<and> deref G' q = Some (filter (\<lambda>p. clientUp cs (snd p)) objS)"
    using computeU2_alias [of cs G S G' S' q objS] by blast
  from * show "clientListU2S S' = clientListS S'" by simp
  from * show "clientListS S' = Some q" by simp
  from * show "deref G' q = Some (filter (\<lambda>p. clientUp cs (snd p)) objS)" by blast
qed


theorem U2_is_U1_object_witness:
  "receiveCiphertexts heapC clientC bundleC = Inr (heapC2, clientC\<lparr>clientListU2 := Some 0\<rparr>)
   \<and> clientListU2 (clientC\<lparr>clientListU2 := Some 0\<rparr>) = clientList (clientC\<lparr>clientListU2 := Some 0\<rparr>)
   \<and> forInKeys heapC2 (clientList (clientC\<lparr>clientListU2 := Some 0\<rparr>)) = [''a'']
   \<and> computeU2 oneDownClients serverList (newServer 1 (Some 0))
       = Inr (serverList2, (newServer 1 (Some 0))\<lparr>clientListU2S := Some 0\<rparr>)
   \<and> deref serverList2 0 = Some [(''a'', ClientForServer 0 ''a'' (Some 7) (Some 9))]"
proof -
  have run: "receiveCiphertexts heapC clientC bundleC
      = Inr (heapC2, clientC\<lparr>clientListU2 := Some 0\<rparr>)"
    by (simp add: receiveCiphertexts_def heapC_def heapC2_def clientC_def bundleC_def
          newClient_def Let_def readEntry_def deref_def writeEntry_def forInKeys_def
          deleteKey_def ClientForClient_def)
  have runS: "computeU2 oneDownClients serverList (newServer 1 (Some 0))
      = Inr (serverList2, (newServer 1 (Some 0))\<lparr>clientListU2S := Some 0\<rparr>)"
    by (simp add: computeU2_def oneDownClients_def serverList_def serverList2_def newServer_def
          forInKeys_def deref_def readEntry_def clientOf_def nthOpt_def ClientForServer_def
          putDown_def newClient_def deleteKey_def getProp_def)
  have pre: "clientList clientC = Some 0 \<and> deref heapC 0 = Some (heapC ! 0)
      \<and> distinct (map fst (heapC ! 0))"
    by (simp add: clientC_def heapC_def deref_def newClient_def)
  have preS: "clientListS (newServer 1 (Some 0) :: nat server) = Some 0
      \<and> deref serverList 0 = Some (serverList ! 0) \<and> distinct (map fst (serverList ! 0))"
    by (simp add: newServer_def serverList_def deref_def)
  have filt: "filter (\<lambda>k. hasCiphertext (heapC ! 0) k \<or> k \<in> set (senders bundleC)) (map fst (heapC ! 0))
      = [''a'']"
    by (simp add: heapC_def hasCiphertext_def senders_def bundleC_def ClientForClient_def)
  have filtS: "filter (\<lambda>p. clientUp oneDownClients (snd p)) (serverList ! 0)
      = [(''a'', ClientForServer 0 ''a'' (Some 7) (Some 9))]"
    by (simp add: clientUp_def clientOf_def nthOpt_def oneDownClients_def ClientForServer_def
          putDown_def newClient_def serverList_def)
  show ?thesis
    using U2_is_U1_object [of heapC clientC bundleC heapC2
        "clientC\<lparr>clientListU2 := Some 0\<rparr>" 0 "heapC ! 0" oneDownClients serverList
        "newServer 1 (Some 0)" serverList2
        "(newServer 1 (Some 0))\<lparr>clientListU2S := Some 0\<rparr>" 0 "serverList ! 0"]
      run runS pre preS filt filtS
    by simp
qed

subsection \<open>Share indices in round 1\<close>

lemma update_append_new: "k \<notin> fst ` set al \<Longrightarrow> AList.update k v al = al @ [(k, v)]"
  by (induction al) auto

lemma pairwiseLoop_keys:
  assumes "pairwiseLoop P c obj ks acc = Inr acc'"
    and "set ks \<inter> fst ` set acc = {}" and "distinct ks"
  shows "map fst acc' = map fst acc @ filter (\<lambda>k. k \<noteq> cid c) ks"
  using assms
proof (induction ks arbitrary: acc)
  case Nil
  then show ?case by simp
next
  case (Cons k ks)
  show ?case
  proof (cases "k = cid c")
    case True
    with Cons.prems have "pairwiseLoop P c obj ks acc = Inr acc'" by simp
    from Cons.IH [OF this] Cons.prems True show ?thesis by auto
  next
    case False
    with Cons.prems obtain v where rest: "pairwiseLoop P c obj ks (AList.update k v acc) = Inr acc'"
      by (auto simp: bindE_eq_Inr)
    have upd: "AList.update k v acc = acc @ [(k, v)]"
      using Cons.prems(2) by (intro update_append_new) auto
    have "set ks \<inter> fst ` set (AList.update k v acc) = {}"
      using Cons.prems(2,3) by (auto simp: upd)
    from Cons.IH [OF rest this] Cons.prems(3) False show ?thesis by (simp add: upd)
  qed
qed

lemma computePairwiseEncryption_keys:
  assumes "computePairwiseEncryption P H c = Inr (H', c')"
    and "clientList c = Some r" and "deref H r = Some obj" and "distinct (map fst obj)"
  shows "forInKeys H' (clientList c') = filter (\<lambda>k. k \<noteq> cid c) (map fst obj)
         \<and> c' = c\<lparr>clientList := Some (length H)\<rparr>"
proof -
  from assms obtain cl where loop: "pairwiseLoop P c obj (map fst obj) [] = Inr cl"
    and H': "H' = H @ [cl]" and c': "c' = c\<lparr>clientList := Some (length H)\<rparr>"
    by (auto simp: computePairwiseEncryption_def Let_def bindE_eq_Inr alloc_def)
  from pairwiseLoop_keys [OF loop] assms(4)
  have "map fst cl = filter (\<lambda>k. k \<noteq> cid c) (map fst obj)" by simp
  then show ?thesis by (simp add: H' c' forInKeys_def deref_def)
qed


lemma map_of_update_other: "k' \<noteq> k \<Longrightarrow> map_of (AList.update k v al) k' = map_of al k'"
  by (simp add: update_conv')

lemma ciphertextLoop_spec:
  assumes "ciphertextLoop P c ivs H ks i0 acc = Inr (cts, idx)"
    and "distinct ks"
    and "secretKeyShamir c = Some keyShares" and "selfMaskSeedShamir c = Some seedShares"
  shows "idx = i0 + length ks
    \<and> (\<forall>j<length ks. ks ! j \<noteq> cid c \<longrightarrow>
          (\<exists>e ct. readEntry H (clientList c) (ks ! j) = Inr (Some e)
             \<and> AESGCMEncrypt P (peerAESKey e) (ivs (i0 + j))
                  (secretOf (cid c) (ks ! j) keyShares seedShares (i0 + j)) = Inr ct
             \<and> map_of cts (cid c @ ''|'' @ ks ! j) = Some ct))
    \<and> (\<forall>k. k \<notin> set ks \<longrightarrow> map_of cts (cid c @ ''|'' @ k) = map_of acc (cid c @ ''|'' @ k))"
  using assms(1,2)
proof (induction ks arbitrary: i0 acc)
  case Nil
  then show ?case by simp
next
  case (Cons k ks)
  have dk: "k \<notin> set ks" and dks: "distinct ks" using Cons.prems(2) by simp_all
  show ?case
  proof (cases "k = cid c")
    case True
    with Cons.prems have rest: "ciphertextLoop P c ivs H ks (i0 + 1) acc = Inr (cts, idx)" by simp
    from Cons.IH [OF rest dks]
    have IH: "idx = i0 + 1 + length ks"
      "\<And>j. j < length ks \<Longrightarrow> ks ! j \<noteq> cid c \<Longrightarrow>
          (\<exists>e ct. readEntry H (clientList c) (ks ! j) = Inr (Some e)
             \<and> AESGCMEncrypt P (peerAESKey e) (ivs (i0 + 1 + j))
                  (secretOf (cid c) (ks ! j) keyShares seedShares (i0 + 1 + j)) = Inr ct
             \<and> map_of cts (cid c @ ''|'' @ ks ! j) = Some ct)"
      "\<And>k'. k' \<notin> set ks \<Longrightarrow> map_of cts (cid c @ ''|'' @ k') = map_of acc (cid c @ ''|'' @ k')"
      by blast+
    show ?thesis
    proof (intro conjI allI impI)
      show "idx = i0 + length (k # ks)" using IH(1) by simp
    next
      fix j assume j: "j < length (k # ks)" and ne: "(k # ks) ! j \<noteq> cid c"
      then obtain j' where j': "j = Suc j'" "j' < length ks" using True by (cases j) auto
      with IH(2) [of j'] ne
      show "\<exists>e ct. readEntry H (clientList c) ((k # ks) ! j) = Inr (Some e)
             \<and> AESGCMEncrypt P (peerAESKey e) (ivs (i0 + j))
                  (secretOf (cid c) ((k # ks) ! j) keyShares seedShares (i0 + j)) = Inr ct
             \<and> map_of cts (cid c @ ''|'' @ (k # ks) ! j) = Some ct"
        by simp
    next
      fix k' assume "k' \<notin> set (k # ks)"
      then show "map_of cts (cid c @ ''|'' @ k') = map_of acc (cid c @ ''|'' @ k')"
        using IH(3) by simp
    qed
  next
    case False
    with Cons.prems(1) assms(3,4) obtain e ct where
      e: "readEntry H (clientList c) k = Inr (Some e)"
      and ct: "AESGCMEncrypt P (peerAESKey e) (ivs i0) (secretOf (cid c) k keyShares seedShares i0) = Inr ct"
      and rest: "ciphertextLoop P c ivs H ks (i0 + 1) (AList.update (cid c @ ''|'' @ k) ct acc) = Inr (cts, idx)"
      by (auto simp: bindE_eq_Inr orThrow_eq_Inr)
    from Cons.IH [OF rest dks]
    have IH: "idx = i0 + 1 + length ks"
      "\<And>j. j < length ks \<Longrightarrow> ks ! j \<noteq> cid c \<Longrightarrow>
          (\<exists>e ct. readEntry H (clientList c) (ks ! j) = Inr (Some e)
             \<and> AESGCMEncrypt P (peerAESKey e) (ivs (i0 + 1 + j))
                  (secretOf (cid c) (ks ! j) keyShares seedShares (i0 + 1 + j)) = Inr ct
             \<and> map_of cts (cid c @ ''|'' @ ks ! j) = Some ct)"
      "\<And>k'. k' \<notin> set ks \<Longrightarrow> map_of cts (cid c @ ''|'' @ k')
          = map_of (AList.update (cid c @ ''|'' @ k) ct acc) (cid c @ ''|'' @ k')"
      by blast+
    show ?thesis
    proof (intro conjI allI impI)
      show "idx = i0 + length (k # ks)" using IH(1) by simp
    next
      fix j assume j: "j < length (k # ks)" and ne: "(k # ks) ! j \<noteq> cid c"
      show "\<exists>e ct. readEntry H (clientList c) ((k # ks) ! j) = Inr (Some e)
             \<and> AESGCMEncrypt P (peerAESKey e) (ivs (i0 + j))
                  (secretOf (cid c) ((k # ks) ! j) keyShares seedShares (i0 + j)) = Inr ct
             \<and> map_of cts (cid c @ ''|'' @ (k # ks) ! j) = Some ct"
      proof (cases j)
        case 0
        have "map_of cts (cid c @ ''|'' @ k) = Some ct"
          using IH(3) [OF dk] by (simp add: update_conv')
        then show ?thesis using 0 e ct by simp
      next
        case (Suc j')
        with j IH(2) [of j'] ne show ?thesis by simp
      qed
    next
      fix k' assume k': "k' \<notin> set (k # ks)"
      then have "cid c @ ''|'' @ k' \<noteq> cid c @ ''|'' @ k" by simp
      then show "map_of cts (cid c @ ''|'' @ k') = map_of acc (cid c @ ''|'' @ k')"
        using IH(3) [of k'] k' by (simp add: map_of_update_other)
    qed
  qed
qed


lemma generateCiphertexts_spec:
  assumes "generateCiphertexts P ivs H c = Inr c'"
    and "distinct (forInKeys H (clientList c))"
  shows "\<exists>keyShares seedShares cts.
      secretKeyShamir c = Some keyShares \<and> selfMaskSeedShamir c = Some seedShares
      \<and> c' = c\<lparr>ownPrivateKeyShare := map_of keyShares (length (forInKeys H (clientList c)) + 1),
                ownSelfMaskSeedShare := map_of seedShares (length (forInKeys H (clientList c)) + 1),
                ownIndex := Some (length (forInKeys H (clientList c)) + 1),
                ciphertexts := Some cts\<rparr>
      \<and> (\<forall>j<length (forInKeys H (clientList c)). forInKeys H (clientList c) ! j \<noteq> cid c \<longrightarrow>
          (\<exists>e ct. readEntry H (clientList c) (forInKeys H (clientList c) ! j) = Inr (Some e)
             \<and> AESGCMEncrypt P (peerAESKey e) (ivs (j + 1))
                  (secretOf (cid c) (forInKeys H (clientList c) ! j) keyShares seedShares (j + 1)) = Inr ct
             \<and> map_of cts (cid c @ ''|'' @ forInKeys H (clientList c) ! j) = Some ct))"
proof -
  let ?ks = "forInKeys H (clientList c)"
  from assms(1) obtain cts idx keyShares seedShares where
    loop: "ciphertextLoop P c ivs H ?ks 1 [] = Inr (cts, idx)"
    and ks: "secretKeyShamir c = Some keyShares" and ss: "selfMaskSeedShamir c = Some seedShares"
    and c': "c' = c\<lparr>ownPrivateKeyShare := map_of keyShares idx,
                ownSelfMaskSeedShare := map_of seedShares idx,
                ownIndex := Some idx, ciphertexts := Some cts\<rparr>"
    by (auto simp: generateCiphertexts_def bindE_eq_Inr orThrow_eq_Inr)
  from ciphertextLoop_spec [OF loop assms(2) ks ss]
  have idx: "idx = length ?ks + 1"
    and each: "\<And>j. j < length ?ks \<Longrightarrow> ?ks ! j \<noteq> cid c \<Longrightarrow>
          (\<exists>e ct. readEntry H (clientList c) (?ks ! j) = Inr (Some e)
             \<and> AESGCMEncrypt P (peerAESKey e) (ivs (j + 1))
                  (secretOf (cid c) (?ks ! j) keyShares seedShares (j + 1)) = Inr ct
             \<and> map_of cts (cid c @ ''|'' @ ?ks ! j) = Some ct)"
    by (simp_all add: add.commute)
  show ?thesis
    using ks ss c' idx each by blast
qed

text \<open>
  C7, as the code has it. Round 1 builds the client's peer list from the broadcast
  list, in its order and without the client itself. The share with index \<open>k\<close> of both
  sharings is encrypted, with the index \<open>k\<close>, under the key of the \<open>k\<close>-th peer of that
  list and stored under \<^verbatim>\<open>self|peer\<close>; the client keeps the shares with the index one
  above the length of the list, which is \<^verbatim>\<open>ownIndex\<close>.
\<close>

theorem share_index_is_list_position:
  assumes "round1 P rnd H c = Inr (H', c')" and "isUp c"
    and "clientList c = Some r" and "deref H r = Some obj" and "distinct (map fst obj)"
    and "peers = filter (\<lambda>k. k \<noteq> cid c) (map fst obj)"
  shows "forInKeys H' (clientList c') = peers \<and> ownIndex c' = Some (length peers + 1)
    \<and> (\<exists>keyShares seedShares cts.
          secretKeyShamir c' = Some keyShares \<and> selfMaskSeedShamir c' = Some seedShares
          \<and> ciphertexts c' = Some cts
          \<and> ownPrivateKeyShare c' = map_of keyShares (length peers + 1)
          \<and> ownSelfMaskSeedShare c' = map_of seedShares (length peers + 1)
          \<and> (\<forall>j<length peers.
                \<exists>e ct. readEntry H' (clientList c') (peers ! j) = Inr (Some e)
                  \<and> AESGCMEncrypt P (peerAESKey e) (rndIV rnd (j + 1))
                       (secretOf (cid c) (peers ! j) keyShares seedShares (j + 1)) = Inr ct
                  \<and> map_of cts (cid c @ ''|'' @ peers ! j) = Some ct))"
proof -
  from assms(1,2) obtain c1 c2 c3 where
    g1: "generateSecretKeyShares P (rndKeyShares rnd) (generateSelfMaskSeed (rndSelfMaskSeed rnd) c) = Inr c1"
    and g2: "generateSelfMaskSeedShares P (rndSeedShares rnd) c1 = Inr c2"
    and g3: "computePairwiseEncryption P H c2 = Inr (H', c3)"
    and g4: "generateCiphertexts P (rndIV rnd) H' c3 = Inr c'"
    by (auto simp: round1_def bindE_eq_Inr)
  have c2: "cid c2 = cid c" "clientList c2 = clientList c"
    using g1 g2
    by (auto simp: generateSecretKeyShares_def generateSelfMaskSeedShares_def
          generateSelfMaskSeed_def Let_def bindE_eq_Inr)
  have cl2: "clientList c2 = Some r" using c2 assms(3) by simp
  note pk = computePairwiseEncryption_keys [OF g3 cl2 assms(4,5)]
  have keys: "forInKeys H' (clientList c3) = peers"
    using pk [THEN conjunct1] c2(1) assms(6) by simp
  have c3: "c3 = c2\<lparr>clientList := Some (length H)\<rparr>"
    using pk [THEN conjunct2] .
  have cid3: "cid c3 = cid c" using c3 c2 by simp
  have dist: "distinct (forInKeys H' (clientList c3))"
    using keys assms(5,6) by simp
  have nself: "peers ! j \<noteq> cid c" if "j < length peers" for j
  proof -
    have "peers ! j \<in> set peers" using that by simp
    then show ?thesis unfolding assms(6) by simp
  qed
  from generateCiphertexts_spec [OF g4 dist] obtain keyShares seedShares cts where
    ks: "secretKeyShamir c3 = Some keyShares" and ss: "selfMaskSeedShamir c3 = Some seedShares"
    and c': "c' = c3\<lparr>ownPrivateKeyShare := map_of keyShares (length peers + 1),
                ownSelfMaskSeedShare := map_of seedShares (length peers + 1),
                ownIndex := Some (length peers + 1), ciphertexts := Some cts\<rparr>"
    and each: "\<And>j. j < length peers \<Longrightarrow> peers ! j \<noteq> cid c \<Longrightarrow>
          (\<exists>e ct. readEntry H' (clientList c3) (peers ! j) = Inr (Some e)
             \<and> AESGCMEncrypt P (peerAESKey e) (rndIV rnd (j + 1))
                  (secretOf (cid c) (peers ! j) keyShares seedShares (j + 1)) = Inr ct
             \<and> map_of cts (cid c @ ''|'' @ peers ! j) = Some ct)"
    unfolding keys cid3 by blast
  have cl: "clientList c' = clientList c3" using c' by simp
  show ?thesis
    unfolding cl
    using keys ks ss c' each nself by auto
qed

lemma round1_clientB0: "round1 toyPrims exampleEntropy heapABC clientB0 = Inr (heapABC @ [listB], clientB1)"
  by (simp add: round1_def clientB0_def clientB1_def heapABC_def listB_def newClient_def toyPrims_def exampleEntropy_def
        generateSelfMaskSeed_def generateSecretKeyShares_def generateSelfMaskSeedShares_def
        computePairwiseEncryption_def generateCiphertexts_def deref_def alloc_def forInKeys_def
        readEntry_def ClientForServer_def ClientForClient_def getPRNGFromSeed_def
        deriveSharedNumber_def deriveEncryptionKey_def getInt16_def AESGCMEncrypt_def
        secretOf_def shareToString_def uint8ArrayToString_def natToString.simps intToString_def
        Let_def upt_rec)


theorem share_index_is_list_position_witness:
  "round1 toyPrims exampleEntropy heapABC clientB0 = Inr (heapABC @ [listB], clientB1)
   \<and> forInKeys (heapABC @ [listB]) (clientList clientB1) = [''a'', ''c'']
   \<and> ownIndex clientB1 = Some 3"
proof -
  have up: "isUp clientB0" and cl: "clientList clientB0 = Some 0"
    by (simp_all add: clientB0_def newClient_def)
  have de: "deref heapABC 0 = Some (heapABC ! 0)" and di: "distinct (map fst (heapABC ! 0))"
    by (simp_all add: heapABC_def deref_def)
  have pe: "[''a'', ''c''] = filter (\<lambda>k. k \<noteq> cid clientB0) (map fst (heapABC ! 0))"
    by (simp add: clientB0_def heapABC_def newClient_def)
  note pos = share_index_is_list_position [OF round1_clientB0 up cl de di pe]
  show ?thesis
    using round1_clientB0 pos [THEN conjunct1] pos [THEN conjunct2, THEN conjunct1] by simp
qed

theorem share_index_rank_counterexample:
  "round1 toyPrims exampleEntropy heapABC clientB0 = Inr (heapABC @ [listB], clientB1)
   \<and> forInKeys heapABC (clientList clientB0) = [''a'', ''b'', ''c'']
   \<and> rankOf ''b'' [''a'', ''b'', ''c''] = 2 \<and> ownIndex clientB1 = Some 3
   \<and> rankOf ''c'' [''a'', ''b'', ''c''] = 3
   \<and> ciphertexts clientB1
       = Some [(''b|a'', \<lparr>ciphertextBytes = secretOf ''b'' ''a''
                  [(1, ''21''), (2, ''22''), (3, ''23'')] [(1, ''51''), (2, ''52''), (3, ''53'')] 1, iv = []\<rparr>),
               (''b|c'', \<lparr>ciphertextBytes = secretOf ''b'' ''c''
                  [(1, ''21''), (2, ''22''), (3, ''23'')] [(1, ''51''), (2, ''52''), (3, ''53'')] 2, iv = []\<rparr>)]"
  using round1_clientB0
  by (simp add: clientB0_def clientB1_def heapABC_def forInKeys_def deref_def
        newClient_def secretOf_def shareToString_def
        uint8ArrayToString_def natToString.simps)

subsection \<open>The accumulators in closed form\<close>



lemma setInt32_cong_mod: "setInt32 v mod 2 ^ 32 = v mod 2 ^ 32"
  by (simp add: setInt32_def mod_diff_left_eq)

lemma setInt32_eq_iff: "setInt32 a = setInt32 b \<longleftrightarrow> a mod 2 ^ 32 = b mod 2 ^ 32"
  by (metis setInt32_cong_mod setInt32_def mod_add_cong mod_mod_trivial)

lemma setInt32_add_left [simp]: "setInt32 (setInt32 a + b) = setInt32 (a + b)"
  unfolding setInt32_eq_iff by (metis mod_add_left_eq setInt32_cong_mod)

lemma setInt32_add_right [simp]: "setInt32 (a + setInt32 b) = setInt32 (a + b)"
  unfolding setInt32_eq_iff by (metis mod_add_right_eq setInt32_cong_mod)

lemma setInt32_diff_left [simp]: "setInt32 (setInt32 a - b) = setInt32 (a - b)"
  unfolding setInt32_eq_iff by (metis mod_diff_left_eq setInt32_cong_mod)

lemma setInt32_diff_right [simp]: "setInt32 (a - setInt32 b) = setInt32 (a - b)"
  unfolding setInt32_eq_iff by (metis mod_diff_right_eq setInt32_cong_mod)







lemma setInt32_idem [simp]: "setInt32 (setInt32 v) = setInt32 v"
  by (metis setInt32_eq_iff setInt32_cong_mod)






subsection \<open>The rounds of the driver\<close>






subsection \<open>The example run\<close>

lemmas world_defs = worldClients_def worldClientA_def worldClientB_def worldClientC_def worldHeap_def
  viewOf_def exampleClient_def newClient_def ClientForServer_def ClientForClient_def getPRNGFromSeed_def
  serverR1_def newServer_def

lemma afterRound1_world: "afterRound1 sa sb sc = Inr (worldHeap, worldClients sa sb sc)"
  by (simp add: afterRound1_def world_defs entropyOf_def pick_def heapABC_def toyPrims_def
        round1_def generateSelfMaskSeed_def generateSecretKeyShares_def generateSelfMaskSeedShares_def
        computePairwiseEncryption_def generateCiphertexts_def deref_def alloc_def forInKeys_def
        readEntry_def writeEntry_def deleteKey_def
        deriveSharedNumber_def deriveEncryptionKey_def getInt16_def AESGCMEncrypt_def
        secretOf_def shareToString_def uint8ArrayToString_def natToString.simps intToString_def
        receiveCiphertexts_def senders_def
        Let_def upt_rec)


subsection \<open>The accumulators on 32-bit words\<close>











subsection \<open>The state after round 1\<close>




lemma pairTerm_self [simp]: "pairTerm me me m = 0"
  by (simp add: pairTerm_def)



subsection \<open>Round 2 on the server\<close>









subsection \<open>Round 2 of a run\<close>


subsection \<open>Sums of pairwise masks\<close>












subsection \<open>Round 3 on the server\<close>




subsection \<open>The result of a run\<close>










end
